theory Spec2Isabelle
  imports Complex_Main "HOL-Library.AList"
begin

section \<open>The ambience mixer: Android module, iOS module and the TypeScript bridge\<close>

text \<open>
  The embedding follows the three layers of the repository:
  \<^item> \<^verbatim>\<open>AmbianceAudioEngineModule.java\<close> (Android native module),
  \<^item> \<^verbatim>\<open>AmbianceAudioEngine.swift\<close> (iOS native module),
  \<^item> \<^verbatim>\<open>NativeAudioBridge.ts\<close> (the bridge the UI calls).

  Conventions. Java \<^verbatim>\<open>float\<close>/\<^verbatim>\<open>double\<close>, Swift \<^verbatim>\<open>Float\<close>/\<^verbatim>\<open>Double\<close> and JS numbers are
  modelled as \<^typ>\<open>real\<close> (no rounding, no NaN, no infinities); Java \<^verbatim>\<open>long\<close> milliseconds as
  \<^typ>\<open>int\<close>. A \<^verbatim>\<open>HashMap<String, _>\<close> / Swift dictionary is an association list with one
  entry per key; \<^verbatim>\<open>put\<close> is \<^const>\<open>AList.update\<close>, \<^verbatim>\<open>get\<close> is \<^const>\<open>map_of\<close>, and a loop over
  \<^verbatim>\<open>entrySet()\<close> is a \<^const>\<open>fold\<close> over the entries. A promise is the pair of its outcome
  (\<open>Inl\<close> the rejection code, \<open>Inr\<close> the resolved value) and the state after the call.
  The wall clock (\<^verbatim>\<open>System.currentTimeMillis()\<close>, \<^verbatim>\<open>Date()\<close>) is a parameter \<open>now\<close>.
\<close>

subsection \<open>Errors and rejection codes\<close>

datatype error =
    ENGINE_NOT_INITIALIZED
  | TRACK_NOT_FOUND
  | AUDIO_FILE_NOT_FOUND
  | PLAYBACK_FAILED
  | INVALID_PARAMETER
  | TRACK_ADD_FAILED

type_synonym ('a, 's) promise = "(error + 'a) \<times> 's"

subsection \<open>Android: \<^verbatim>\<open>android.media.MediaPlayer\<close> as the module uses it\<close>

text \<open>
  Only the calls the module makes are modelled. \<open>Prepared\<close> is the state after
  \<^verbatim>\<open>prepare()\<close> (position at the start), \<open>Started\<close> after \<^verbatim>\<open>start()\<close>, \<open>Paused\<close> after
  \<^verbatim>\<open>pause()\<close> (position kept where it was). \<^verbatim>\<open>isPlaying()\<close> holds exactly in \<open>Started\<close>.
  \<open>mp_gain\<close> is the argument pair of the last \<^verbatim>\<open>setVolume(left, right)\<close> call, \<open>None\<close>
  while the module has never called it on this player.
\<close>

datatype mp_status = Prepared | Started | Paused

record MediaPlayer =
  mp_status :: mp_status
  mp_looping :: bool
  mp_gain :: "(real \<times> real) option"

definition new_MediaPlayer :: MediaPlayer where
  "new_MediaPlayer = \<lparr> mp_status = Prepared, mp_looping = True, mp_gain = None \<rparr>"

definition mp_isPlaying :: "MediaPlayer \<Rightarrow> bool" where
  "mp_isPlaying p = (mp_status p = Started)"

definition mp_start :: "MediaPlayer \<Rightarrow> MediaPlayer" where
  "mp_start p = p \<lparr> mp_status := Started \<rparr>"

definition mp_pause :: "MediaPlayer \<Rightarrow> MediaPlayer" where
  "mp_pause p = p \<lparr> mp_status := Paused \<rparr>"

definition mp_stop_prepare :: "MediaPlayer \<Rightarrow> MediaPlayer" where
  "mp_stop_prepare p = p \<lparr> mp_status := Prepared \<rparr>"

definition mp_setVolume :: "real \<Rightarrow> real \<Rightarrow> MediaPlayer \<Rightarrow> MediaPlayer" where
  "mp_setVolume l r p = p \<lparr> mp_gain := Some (l, r) \<rparr>"

subsection \<open>Android: the module's data\<close>

record TrackConfig =
  tc_id :: string
  tc_name :: string
  tc_audioFile :: string
  tc_volume :: real
  tc_pan :: real
  tc_isPlaying :: bool

definition new_TrackConfig :: "string \<Rightarrow> string \<Rightarrow> string \<Rightarrow> TrackConfig" where
  "new_TrackConfig i n f =
     \<lparr> tc_id = i, tc_name = n, tc_audioFile = f,
       tc_volume = 0.5, tc_pan = 0, tc_isPlaying = False \<rparr>"

record TimerConfig =
  duration :: int
  fadeOut :: bool
  fadeOutDuration :: int

text \<open>
  \<open>assets\<close> is the environment: the asset files \<^verbatim>\<open>getAssets().openFd\<close> can open.
  \<open>sentEvents\<close> is the log of \<^verbatim>\<open>sendEvent\<close> names. \<open>timerRunnable\<close> is
  \<^verbatim>\<open>timerRunnable != null\<close>. \<open>releasedPlayers\<close> counts the calls of
  \<^verbatim>\<open>MediaPlayer.release()\<close> the module has made.
\<close>

record engine =
  players :: "(string \<times> MediaPlayer) list"
  trackConfigs :: "(string \<times> TrackConfig) list"
  isInitialized :: bool
  isPlaying :: bool
  masterVolume :: real
  timerRunnable :: bool
  timerConfig :: "TimerConfig option"
  timerStartTime :: int
  sentEvents :: "string list"
  releasedPlayers :: nat
  assets :: "string list"

definition new_engine :: "string list \<Rightarrow> engine" where
  "new_engine fs =
     \<lparr> players = [], trackConfigs = [], isInitialized = False, isPlaying = False,
       masterVolume = 1, timerRunnable = False, timerConfig = None, timerStartTime = 0,
       sentEvents = [], releasedPlayers = 0, assets = fs \<rparr>"

definition sendEvent :: "string \<Rightarrow> engine \<Rightarrow> engine" where
  "sendEvent n s = s \<lparr> sentEvents := sentEvents s @ [n] \<rparr>"

subsection \<open>Android: the React methods\<close>

definition android_initialize :: "engine \<Rightarrow> (bool, engine) promise" where
  "android_initialize s = (Inr True, sendEvent ''onInitialized'' (s \<lparr> isInitialized := True \<rparr>))"

definition android_addTrack :: "string \<Rightarrow> string \<Rightarrow> engine \<Rightarrow> (bool, engine) promise" where
  "android_addTrack trackId audioFile s =
     (if \<not> isInitialized s then (Inl ENGINE_NOT_INITIALIZED, s)
      else if audioFile \<notin> set (assets s) then (Inl TRACK_ADD_FAILED, s)
      else (Inr True,
            sendEvent ''onTrackAdded''
              (s \<lparr> players := AList.update trackId new_MediaPlayer (players s),
                   trackConfigs :=
                     AList.update trackId (new_TrackConfig trackId audioFile audioFile)
                       (trackConfigs s) \<rparr>)))"

definition android_setVolume :: "string \<Rightarrow> real \<Rightarrow> engine \<Rightarrow> (bool, engine) promise" where
  "android_setVolume trackId volume s =
     (case map_of (players s) trackId of
        None \<Rightarrow> (Inl TRACK_NOT_FOUND, s)
      | Some player \<Rightarrow>
          (let clampedVolume = max 0 (min 1 volume);
               s1 = s \<lparr> players :=
                          AList.update trackId
                            (mp_setVolume (clampedVolume * masterVolume s)
                               (clampedVolume * masterVolume s) player)
                            (players s) \<rparr>;
               s2 = (case map_of (trackConfigs s1) trackId of
                       None \<Rightarrow> s1
                     | Some config \<Rightarrow>
                         s1 \<lparr> trackConfigs :=
                                AList.update trackId (config \<lparr> tc_volume := clampedVolume \<rparr>)
                                  (trackConfigs s1) \<rparr>)
           in (Inr True, s2)))"

definition android_setPanning :: "string \<Rightarrow> real \<Rightarrow> engine \<Rightarrow> (bool, engine) promise" where
  "android_setPanning trackId pan s =
     (case map_of (players s) trackId of
        None \<Rightarrow> (Inl TRACK_NOT_FOUND, s)
      | Some player \<Rightarrow>
          (let clampedPan = max (- 1) (min 1 pan);
               s1 = (case map_of (trackConfigs s) trackId of
                       None \<Rightarrow> s
                     | Some config \<Rightarrow>
                         (let baseVolume = tc_volume config * masterVolume s;
                              leftVolume =
                                (if clampedPan < 0 then baseVolume
                                 else baseVolume * (1 - clampedPan));
                              rightVolume =
                                (if clampedPan < 0 then baseVolume * (1 + clampedPan)
                                 else baseVolume)
                          in s \<lparr> players :=
                                   AList.update trackId
                                     (mp_setVolume leftVolume rightVolume player) (players s),
                                 trackConfigs :=
                                   AList.update trackId (config \<lparr> tc_pan := clampedPan \<rparr>)
                                     (trackConfigs s) \<rparr>))
           in (Inr True, s1)))"

text \<open>The body of the \<^verbatim>\<open>for\<close> loop of \<^verbatim>\<open>play\<close>, for one entry of \<^verbatim>\<open>players.entrySet()\<close>.\<close>

definition play_entry :: "string \<times> MediaPlayer \<Rightarrow> engine \<Rightarrow> engine" where
  "play_entry e s =
     (case e of (trackId, player) \<Rightarrow>
        (case map_of (trackConfigs s) trackId of
           None \<Rightarrow> s
         | Some config \<Rightarrow>
             if tc_volume config > 0 \<and> \<not> mp_isPlaying player
             then s \<lparr> players := AList.update trackId (mp_start player) (players s),
                      trackConfigs :=
                        AList.update trackId (config \<lparr> tc_isPlaying := True \<rparr>)
                          (trackConfigs s) \<rparr>
             else s))"

definition android_play :: "engine \<Rightarrow> (bool, engine) promise" where
  "android_play s =
     (if \<not> isInitialized s then (Inl ENGINE_NOT_INITIALIZED, s)
      else (Inr True,
            sendEvent ''onPlaybackStarted''
              ((fold play_entry (players s) s) \<lparr> isPlaying := True \<rparr>)))"

definition pause_entry :: "string \<times> MediaPlayer \<Rightarrow> engine \<Rightarrow> engine" where
  "pause_entry e s =
     (case e of (trackId, player) \<Rightarrow>
        if mp_isPlaying player
        then (let s1 = s \<lparr> players := AList.update trackId (mp_pause player) (players s) \<rparr>
              in case map_of (trackConfigs s1) trackId of
                   None \<Rightarrow> s1
                 | Some config \<Rightarrow>
                     s1 \<lparr> trackConfigs :=
                            AList.update trackId (config \<lparr> tc_isPlaying := False \<rparr>)
                              (trackConfigs s1) \<rparr>)
        else s)"

definition android_pause :: "engine \<Rightarrow> (bool, engine) promise" where
  "android_pause s =
     (Inr True,
      sendEvent ''onPlaybackPaused'' ((fold pause_entry (players s) s) \<lparr> isPlaying := False \<rparr>))"

definition cancelTimer :: "engine \<Rightarrow> engine" where
  "cancelTimer s = s \<lparr> timerRunnable := False, timerConfig := None, timerStartTime := 0 \<rparr>"

definition stop_entry :: "string \<times> MediaPlayer \<Rightarrow> engine \<Rightarrow> engine" where
  "stop_entry e s =
     (case e of (trackId, player) \<Rightarrow>
        (let s1 = (if mp_isPlaying player
                   then s \<lparr> players :=
                              AList.update trackId (mp_stop_prepare player) (players s) \<rparr>
                   else s)
         in case map_of (trackConfigs s1) trackId of
              None \<Rightarrow> s1
            | Some config \<Rightarrow>
                s1 \<lparr> trackConfigs :=
                       AList.update trackId (config \<lparr> tc_isPlaying := False \<rparr>)
                         (trackConfigs s1) \<rparr>))"

text \<open>
  \<^verbatim>\<open>stop\<close> up to and including \<^verbatim>\<open>isPlaying = false\<close>; the events differ between a
  direct call and the call from \<^verbatim>\<open>handleTimerExpired\<close>, whose promise sends
  \<^verbatim>\<open>onTimerExpired\<close> from \<^verbatim>\<open>resolve\<close>.
\<close>

definition stop_body :: "engine \<Rightarrow> engine" where
  "stop_body s = (cancelTimer (fold stop_entry (players s) s)) \<lparr> isPlaying := False \<rparr>"

definition android_stop :: "engine \<Rightarrow> (bool, engine) promise" where
  "android_stop s = (Inr True, sendEvent ''onPlaybackStopped'' (stop_body s))"

text \<open>
  The Java cast \<^verbatim>\<open>(long) d\<close> of a double: rounding towards zero, saturating at the ends
  of the \<^verbatim>\<open>long\<close> range.
\<close>

definition double_to_long :: "real \<Rightarrow> int" where
  "double_to_long d =
     (if d \<ge> 2 ^ 63 then 2 ^ 63 - 1
      else if d \<le> - (2 ^ 63) then - (2 ^ 63)
      else if d \<ge> 0 then \<lfloor>d\<rfloor> else \<lceil>d\<rceil>)"

definition android_setTimer ::
  "real \<Rightarrow> bool \<Rightarrow> real \<Rightarrow> int \<Rightarrow> engine \<Rightarrow> (bool, engine) promise" where
  "android_setTimer dur fo fod now s =
     (let s1 = cancelTimer s
      in (Inr True,
          s1 \<lparr> timerConfig :=
                 Some \<lparr> duration = double_to_long (dur * 60 * 1000), fadeOut = fo,
                        fadeOutDuration = double_to_long (fod * 60 * 1000) \<rparr>,
               timerStartTime := now,
               timerRunnable := True \<rparr>))"

definition handleTimerExpired :: "engine \<Rightarrow> engine" where
  "handleTimerExpired s =
     sendEvent ''onPlaybackStopped'' (sendEvent ''onTimerExpired'' (stop_body (cancelTimer s)))"

text \<open>The body of the fade loop, for one entry of \<^verbatim>\<open>trackConfigs.entrySet()\<close>.\<close>

definition fade_entry :: "real \<Rightarrow> string \<times> TrackConfig \<Rightarrow> engine \<Rightarrow> engine" where
  "fade_entry targetVolume e s =
     (case e of (trackId, config) \<Rightarrow>
        (case map_of (players s) trackId of
           None \<Rightarrow> s
         | Some player \<Rightarrow>
             if tc_isPlaying config
             then (let fadeVolume = tc_volume config * targetVolume * masterVolume s
                   in s \<lparr> players :=
                            AList.update trackId (mp_setVolume fadeVolume fadeVolume player)
                              (players s) \<rparr>)
             else s))"

definition handleTimerTick :: "int \<Rightarrow> engine \<Rightarrow> engine" where
  "handleTimerTick now s =
     (case timerConfig s of
        None \<Rightarrow> s
      | Some tc \<Rightarrow>
          (let elapsedTime = now - timerStartTime s;
               remainingTime = duration tc - elapsedTime
           in if remainingTime \<le> 0 then handleTimerExpired s
              else if fadeOut tc \<and> remainingTime \<le> fadeOutDuration tc
              then (let fadeProgress =
                          1 - (real_of_int remainingTime / real_of_int (fadeOutDuration tc));
                        targetVolume = 1 - fadeProgress
                    in fold (fade_entry targetVolume) (trackConfigs s) s)
              else s))"

text \<open>
  \<^verbatim>\<open>onCatalystInstanceDestroy\<close>: every player is stopped if playing and released, then
  both maps are cleared and the timer is cancelled. It is the only place where the module
  releases a player.
\<close>

definition release_entry :: "string \<times> MediaPlayer \<Rightarrow> engine \<Rightarrow> engine" where
  "release_entry e s = s \<lparr> releasedPlayers := Suc (releasedPlayers s) \<rparr>"

definition onCatalystInstanceDestroy :: "engine \<Rightarrow> engine" where
  "onCatalystInstanceDestroy s =
     cancelTimer ((fold release_entry (players s) s) \<lparr> players := [], trackConfigs := [] \<rparr>)"

text \<open>The calls the module can receive, and a run of them.\<close>

datatype call =
    Initialize
  | AddTrack string string
  | SetVolume string real
  | SetPanning string real
  | Play
  | Pause
  | Stop
  | SetTimer real bool real int
  | TimerTick int
  | Destroy

fun android_call :: "call \<Rightarrow> engine \<Rightarrow> engine" where
  "android_call Initialize s = snd (android_initialize s)"
| "android_call (AddTrack i f) s = snd (android_addTrack i f s)"
| "android_call (SetVolume i v) s = snd (android_setVolume i v s)"
| "android_call (SetPanning i p) s = snd (android_setPanning i p s)"
| "android_call Play s = snd (android_play s)"
| "android_call Pause s = snd (android_pause s)"
| "android_call Stop s = snd (android_stop s)"
| "android_call (SetTimer d fo fod now) s = snd (android_setTimer d fo fod now s)"
| "android_call (TimerTick now) s = handleTimerTick now s"
| "android_call Destroy s = onCatalystInstanceDestroy s"

definition android_run :: "call list \<Rightarrow> engine \<Rightarrow> engine" where
  "android_run cs s = fold android_call cs s"

subsection \<open>iOS: \<^verbatim>\<open>AVAudioPlayerNode\<close> as the module uses it\<close>

text \<open>
  \<open>an_volume\<close> and \<open>an_pan\<close> are the node's \<^verbatim>\<open>volume\<close> and \<^verbatim>\<open>pan\<close> properties (the
  platform's defaults on a fresh node are 1 and 0), \<open>an_isPlaying\<close> its \<^verbatim>\<open>isPlaying\<close>,
  \<open>an_scheduled\<close> the number of looping buffers scheduled since the last \<^verbatim>\<open>stop()\<close>.
\<close>

record AVAudioPlayerNode =
  an_volume :: real
  an_pan :: real
  an_isPlaying :: bool
  an_scheduled :: nat

definition new_AVAudioPlayerNode :: AVAudioPlayerNode where
  "new_AVAudioPlayerNode =
     \<lparr> an_volume = 1, an_pan = 0, an_isPlaying = False, an_scheduled = 0 \<rparr>"

record ios_TimerConfig =
  ios_duration :: real
  ios_fadeOut :: bool
  ios_fadeOutDuration :: real

text \<open>
  The Swift \<^verbatim>\<open>TrackConfig\<close> struct has the fields of the Java class, so \<^typ>\<open>TrackConfig\<close>
  is used for both. The environment: \<open>ios_bundle\<close> lists the resources
  \<^verbatim>\<open>Bundle.main.url\<close> finds, \<open>ios_decodable\<close> those \<^verbatim>\<open>AVAudioFile(forReading:)\<close> opens,
  \<open>ios_canStart\<close> tells whether \<^verbatim>\<open>audioEngine.start()\<close> succeeds.
\<close>

record ios_engine =
  ios_players :: "(string \<times> AVAudioPlayerNode) list"
  ios_audioFiles :: "(string \<times> string) list"
  ios_trackConfigs :: "(string \<times> TrackConfig) list"
  ios_isInitialized :: bool
  ios_isPlaying :: bool
  ios_masterVolume :: real
  ios_engineRunning :: bool
  ios_playbackTimer :: bool
  ios_timerConfig :: "ios_TimerConfig option"
  ios_timerStartTime :: "real option"
  ios_bundle :: "string list"
  ios_decodable :: "string list"
  ios_canStart :: bool

definition new_ios_engine :: "string list \<Rightarrow> ios_engine" where
  "new_ios_engine fs =
     \<lparr> ios_players = [], ios_audioFiles = [], ios_trackConfigs = [],
       ios_isInitialized = False, ios_isPlaying = False, ios_masterVolume = 1,
       ios_engineRunning = False, ios_playbackTimer = False, ios_timerConfig = None,
       ios_timerStartTime = None, ios_bundle = fs, ios_decodable = fs, ios_canStart = True \<rparr>"

subsection \<open>iOS: the React methods\<close>

definition ios_initialize :: "ios_engine \<Rightarrow> (bool, ios_engine) promise" where
  "ios_initialize s = (Inr True, s \<lparr> ios_isInitialized := True \<rparr>)"

definition ios_addTrack :: "string \<Rightarrow> string \<Rightarrow> ios_engine \<Rightarrow> (bool, ios_engine) promise" where
  "ios_addTrack trackId audioFile s =
     (if \<not> ios_isInitialized s then (Inl ENGINE_NOT_INITIALIZED, s)
      else if audioFile \<notin> set (ios_bundle s) then (Inl AUDIO_FILE_NOT_FOUND, s)
      else if audioFile \<notin> set (ios_decodable s) then (Inl TRACK_ADD_FAILED, s)
      else (Inr True,
            s \<lparr> ios_players := AList.update trackId new_AVAudioPlayerNode (ios_players s),
                ios_audioFiles := AList.update trackId audioFile (ios_audioFiles s),
                ios_trackConfigs :=
                  AList.update trackId (new_TrackConfig trackId audioFile audioFile)
                    (ios_trackConfigs s) \<rparr>))"

text \<open>\<^verbatim>\<open>trackConfigs[trackId]?.f = v\<close>: an update of the entry when there is one.\<close>

definition ios_modify_config ::
  "string \<Rightarrow> (TrackConfig \<Rightarrow> TrackConfig) \<Rightarrow> ios_engine \<Rightarrow> ios_engine" where
  "ios_modify_config trackId f s =
     (case map_of (ios_trackConfigs s) trackId of
        None \<Rightarrow> s
      | Some config \<Rightarrow>
          s \<lparr> ios_trackConfigs := AList.update trackId (f config) (ios_trackConfigs s) \<rparr>)"

definition ios_setVolume :: "string \<Rightarrow> real \<Rightarrow> ios_engine \<Rightarrow> (bool, ios_engine) promise" where
  "ios_setVolume trackId volume s =
     (case map_of (ios_players s) trackId of
        None \<Rightarrow> (Inl TRACK_NOT_FOUND, s)
      | Some player \<Rightarrow>
          (let clampedVolume = max 0 (min 1 volume);
               s1 = s \<lparr> ios_players :=
                          AList.update trackId (player \<lparr> an_volume := clampedVolume \<rparr>)
                            (ios_players s) \<rparr>
           in (Inr True, ios_modify_config trackId (\<lambda>c. c \<lparr> tc_volume := clampedVolume \<rparr>) s1)))"

definition ios_setPanning :: "string \<Rightarrow> real \<Rightarrow> ios_engine \<Rightarrow> (bool, ios_engine) promise" where
  "ios_setPanning trackId pan s =
     (case map_of (ios_players s) trackId of
        None \<Rightarrow> (Inl TRACK_NOT_FOUND, s)
      | Some player \<Rightarrow>
          (let clampedPan = max (- 1) (min 1 pan);
               s1 = s \<lparr> ios_players :=
                          AList.update trackId (player \<lparr> an_pan := clampedPan \<rparr>)
                            (ios_players s) \<rparr>
           in (Inr True, ios_modify_config trackId (\<lambda>c. c \<lparr> tc_pan := clampedPan \<rparr>) s1)))"

definition ios_play_entry :: "string \<times> AVAudioPlayerNode \<Rightarrow> ios_engine \<Rightarrow> ios_engine" where
  "ios_play_entry e s =
     (case e of (trackId, player) \<Rightarrow>
        (case map_of (ios_audioFiles s) trackId of
           None \<Rightarrow> s
         | Some audioFile \<Rightarrow>
             (case map_of (ios_trackConfigs s) trackId of
                None \<Rightarrow> s
              | Some config \<Rightarrow>
                  if tc_volume config > 0
                  then (let scheduled = player \<lparr> an_scheduled := Suc (an_scheduled player) \<rparr>
                        in if \<not> an_isPlaying scheduled
                           then ios_modify_config trackId (\<lambda>c. c \<lparr> tc_isPlaying := True \<rparr>)
                                  (s \<lparr> ios_players :=
                                         AList.update trackId
                                           (scheduled \<lparr> an_isPlaying := True \<rparr>)
                                           (ios_players s) \<rparr>)
                           else s \<lparr> ios_players :=
                                      AList.update trackId scheduled (ios_players s) \<rparr>)
                  else s)))"

definition ios_play :: "ios_engine \<Rightarrow> (bool, ios_engine) promise" where
  "ios_play s =
     (if \<not> ios_isInitialized s then (Inl ENGINE_NOT_INITIALIZED, s)
      else if \<not> ios_engineRunning s \<and> \<not> ios_canStart s then (Inl PLAYBACK_FAILED, s)
      else (let s1 = s \<lparr> ios_engineRunning := True \<rparr>
            in (Inr True, (fold ios_play_entry (ios_players s1) s1) \<lparr> ios_isPlaying := True \<rparr>)))"

definition ios_pause_entry :: "string \<times> AVAudioPlayerNode \<Rightarrow> ios_engine \<Rightarrow> ios_engine" where
  "ios_pause_entry e s =
     (case e of (trackId, player) \<Rightarrow>
        ios_modify_config trackId (\<lambda>c. c \<lparr> tc_isPlaying := False \<rparr>)
          (s \<lparr> ios_players :=
                 AList.update trackId (player \<lparr> an_isPlaying := False \<rparr>) (ios_players s) \<rparr>))"

definition ios_pause :: "ios_engine \<Rightarrow> (bool, ios_engine) promise" where
  "ios_pause s = (Inr True, (fold ios_pause_entry (ios_players s) s) \<lparr> ios_isPlaying := False \<rparr>)"

definition ios_cancelTimer :: "ios_engine \<Rightarrow> ios_engine" where
  "ios_cancelTimer s =
     s \<lparr> ios_playbackTimer := False, ios_timerConfig := None, ios_timerStartTime := None \<rparr>"

definition ios_stop_entry :: "string \<times> AVAudioPlayerNode \<Rightarrow> ios_engine \<Rightarrow> ios_engine" where
  "ios_stop_entry e s =
     (case e of (trackId, player) \<Rightarrow>
        ios_modify_config trackId (\<lambda>c. c \<lparr> tc_isPlaying := False \<rparr>)
          (s \<lparr> ios_players :=
                 AList.update trackId (player \<lparr> an_isPlaying := False, an_scheduled := 0 \<rparr>)
                   (ios_players s) \<rparr>))"

definition ios_stop :: "ios_engine \<Rightarrow> (bool, ios_engine) promise" where
  "ios_stop s =
     (Inr True,
      (ios_cancelTimer ((fold ios_stop_entry (ios_players s) s) \<lparr> ios_engineRunning := False \<rparr>))
        \<lparr> ios_isPlaying := False \<rparr>)"

definition ios_setTimer ::
  "real \<Rightarrow> bool \<Rightarrow> real \<Rightarrow> real \<Rightarrow> ios_engine \<Rightarrow> (bool, ios_engine) promise" where
  "ios_setTimer dur fo fod now s =
     (let s1 = ios_cancelTimer s
      in (Inr True,
          s1 \<lparr> ios_timerConfig :=
                 Some \<lparr> ios_duration = dur * 60, ios_fadeOut = fo,
                        ios_fadeOutDuration = fod * 60 \<rparr>,
               ios_timerStartTime := Some now,
               ios_playbackTimer := True \<rparr>))"

definition ios_handleTimerExpired :: "ios_engine \<Rightarrow> ios_engine" where
  "ios_handleTimerExpired s = snd (ios_stop (ios_cancelTimer s))"

definition ios_fade_entry ::
  "real \<Rightarrow> string \<times> AVAudioPlayerNode \<Rightarrow> ios_engine \<Rightarrow> ios_engine" where
  "ios_fade_entry targetVolume e s =
     (case e of (trackId, player) \<Rightarrow>
        s \<lparr> ios_players :=
               AList.update trackId (player \<lparr> an_volume := an_volume player * targetVolume \<rparr>)
                 (ios_players s) \<rparr>)"

definition ios_handleTimerTick :: "real \<Rightarrow> ios_engine \<Rightarrow> ios_engine" where
  "ios_handleTimerTick now s =
     (case ios_timerConfig s of
        None \<Rightarrow> s
      | Some config \<Rightarrow>
          (case ios_timerStartTime s of
             None \<Rightarrow> s
           | Some startTime \<Rightarrow>
               (let elapsedTime = now - startTime;
                    remainingTime = ios_duration config - elapsedTime
                in if remainingTime \<le> 0 then ios_handleTimerExpired s
                   else if ios_fadeOut config \<and> remainingTime \<le> ios_fadeOutDuration config
                   then (let fadeProgress = 1 - (remainingTime / ios_fadeOutDuration config);
                             targetVolume = 1 - fadeProgress
                         in fold (ios_fade_entry targetVolume) (ios_players s) s)
                   else s)))"

datatype icall =
    IosInitialize
  | IosAddTrack string string
  | IosSetVolume string real
  | IosSetPanning string real
  | IosPlay
  | IosPause
  | IosStop
  | IosSetTimer real bool real real
  | IosTimerTick real

fun ios_call :: "icall \<Rightarrow> ios_engine \<Rightarrow> ios_engine" where
  "ios_call IosInitialize s = snd (ios_initialize s)"
| "ios_call (IosAddTrack i f) s = snd (ios_addTrack i f s)"
| "ios_call (IosSetVolume i v) s = snd (ios_setVolume i v s)"
| "ios_call (IosSetPanning i p) s = snd (ios_setPanning i p s)"
| "ios_call IosPlay s = snd (ios_play s)"
| "ios_call IosPause s = snd (ios_pause s)"
| "ios_call IosStop s = snd (ios_stop s)"
| "ios_call (IosSetTimer d fo fod now) s = snd (ios_setTimer d fo fod now s)"
| "ios_call (IosTimerTick now) s = ios_handleTimerTick now s"

definition ios_run :: "icall list \<Rightarrow> ios_engine \<Rightarrow> ios_engine" where
  "ios_run cs s = fold ios_call cs s"

subsection \<open>The bridge \<^verbatim>\<open>NativeAudioBridge.ts\<close>\<close>

text \<open>
  \<^verbatim>\<open>NativeModules.AmbianceAudioEngine\<close> is an object whose members are the methods the
  platform's module exports. The bridge calls some of them unconditionally and tests others
  for presence (\<^verbatim>\<open>if (NativeAudioEngine.removeTrack)\<close>); the latter are optional fields.
  \<open>'n\<close> is the native module's state. Of the bridge, the methods the properties below
  are about are embedded. Of \<^verbatim>\<open>AudioTrack\<close> the fields \<^verbatim>\<open>id\<close>, \<^verbatim>\<open>file\<close>, \<^verbatim>\<open>isPlaying\<close>, \<^verbatim>\<open>volume\<close>
  and \<^verbatim>\<open>pan\<close> are kept, of \<^verbatim>\<open>AudioScene\<close> the fields \<^verbatim>\<open>id\<close>, \<^verbatim>\<open>name\<close> and \<^verbatim>\<open>tracks\<close>; the
  bridge reads no other.
\<close>

record AudioTrack =
  at_id :: string
  at_file :: string
  at_isPlaying :: bool
  at_volume :: real
  at_pan :: real

record AudioScene =
  sc_id :: string
  sc_name :: string
  sc_tracks :: "AudioTrack list"

record 'n NativeModule =
  nm_initialize :: "'n \<Rightarrow> (bool, 'n) promise"
  nm_addTrack :: "string \<Rightarrow> string \<Rightarrow> 'n \<Rightarrow> (bool, 'n) promise"
  nm_setVolume :: "string \<Rightarrow> real \<Rightarrow> 'n \<Rightarrow> (bool, 'n) promise"
  nm_setPanning :: "string \<Rightarrow> real \<Rightarrow> 'n \<Rightarrow> (bool, 'n) promise"
  nm_play :: "'n \<Rightarrow> (bool, 'n) promise"
  nm_removeTrack :: "(string \<Rightarrow> 'n \<Rightarrow> (bool, 'n) promise) option"
  nm_getTracks :: "('n \<Rightarrow> (AudioTrack list, 'n) promise) option"
  nm_setMasterVolume :: "(real \<Rightarrow> 'n \<Rightarrow> (bool, 'n) promise) option"
  nm_loadScene :: "(string \<Rightarrow> 'n \<Rightarrow> (bool, 'n) promise) option"

text \<open>
  The Android module's \<^verbatim>\<open>@ReactMethod\<close>s are \<^verbatim>\<open>initialize\<close>, \<^verbatim>\<open>addTrack\<close>, \<^verbatim>\<open>setVolume\<close>,
  \<^verbatim>\<open>setPanning\<close>, \<^verbatim>\<open>play\<close>, \<^verbatim>\<open>pause\<close>, \<^verbatim>\<open>stop\<close>, \<^verbatim>\<open>setTimer\<close> and \<^verbatim>\<open>saveScene\<close>; the iOS
  module's \<^verbatim>\<open>RCT_EXTERN_METHOD\<close>s are the same nine. Neither exports \<^verbatim>\<open>removeTrack\<close>,
  \<^verbatim>\<open>getTracks\<close>, \<^verbatim>\<open>setMasterVolume\<close> or \<^verbatim>\<open>loadScene\<close>.
\<close>

definition AndroidModule :: "engine NativeModule" where
  "AndroidModule =
     \<lparr> nm_initialize = android_initialize, nm_addTrack = android_addTrack,
       nm_setVolume = android_setVolume, nm_setPanning = android_setPanning,
       nm_play = android_play,
       nm_removeTrack = None, nm_getTracks = None, nm_setMasterVolume = None,
       nm_loadScene = None \<rparr>"

definition IosModule :: "ios_engine NativeModule" where
  "IosModule =
     \<lparr> nm_initialize = ios_initialize, nm_addTrack = ios_addTrack,
       nm_setVolume = ios_setVolume, nm_setPanning = ios_setPanning,
       nm_play = ios_play,
       nm_removeTrack = None, nm_getTracks = None, nm_setMasterVolume = None,
       nm_loadScene = None \<rparr>"

text \<open>The calls of \<^verbatim>\<open>emitEvent\<close>, with the payload fields the properties below read.\<close>

datatype bridge_event =
    EvVolumeChanged string real
  | EvPanningChanged string real
  | EvError error
  | EvPlaybackStarted
  | EvSceneLoaded

record 'n bridge =
  br_isInitialized :: bool
  br_native :: 'n
  br_emitted :: "bridge_event list"

definition new_bridge :: "'n \<Rightarrow> 'n bridge" where
  "new_bridge n = \<lparr> br_isInitialized = False, br_native = n, br_emitted = [] \<rparr>"

definition emitEvent :: "bridge_event \<Rightarrow> 'n bridge \<Rightarrow> 'n bridge" where
  "emitEvent e b = b \<lparr> br_emitted := br_emitted b @ [e] \<rparr>"

text \<open>The three validators throw; \<open>Some e\<close> is the error thrown.\<close>

definition validateInitialized :: "'n bridge \<Rightarrow> error option" where
  "validateInitialized b = (if \<not> br_isInitialized b then Some ENGINE_NOT_INITIALIZED else None)"

definition validateVolume :: "real \<Rightarrow> error option" where
  "validateVolume volume = (if volume < 0 \<or> volume > 1 then Some INVALID_PARAMETER else None)"

definition validatePan :: "real \<Rightarrow> error option" where
  "validatePan pan = (if pan < - 1 \<or> pan > 1 then Some INVALID_PARAMETER else None)"

definition bridge_initialize :: "'n NativeModule \<Rightarrow> 'n bridge \<Rightarrow> (bool, 'n bridge) promise" where
  "bridge_initialize M b =
     (case nm_initialize M (br_native b) of
        (Inr result, n) \<Rightarrow> (Inr result, b \<lparr> br_isInitialized := result, br_native := n \<rparr>)
      | (Inl err, n) \<Rightarrow>
          (Inr False, emitEvent (EvError ENGINE_NOT_INITIALIZED) (b \<lparr> br_native := n \<rparr>)))"

definition bridge_addTrack ::
  "'n NativeModule \<Rightarrow> string \<Rightarrow> string \<Rightarrow> 'n bridge \<Rightarrow> (bool, 'n bridge) promise" where
  "bridge_addTrack M trackId audioFile b =
     (case validateInitialized b of
        Some err \<Rightarrow> (Inl err, b)
      | None \<Rightarrow>
          (case nm_addTrack M trackId audioFile (br_native b) of
             (Inr result, n) \<Rightarrow> (Inr result, b \<lparr> br_native := n \<rparr>)
           | (Inl err, n) \<Rightarrow>
               (Inr False, emitEvent (EvError TRACK_NOT_FOUND) (b \<lparr> br_native := n \<rparr>))))"

definition bridge_setVolume ::
  "'n NativeModule \<Rightarrow> string \<Rightarrow> real \<Rightarrow> 'n bridge \<Rightarrow> (bool, 'n bridge) promise" where
  "bridge_setVolume M trackId volume b =
     (case validateInitialized b of
        Some err \<Rightarrow> (Inl err, b)
      | None \<Rightarrow>
          (case validateVolume volume of
             Some err \<Rightarrow> (Inl err, b)
           | None \<Rightarrow>
               (case nm_setVolume M trackId volume (br_native b) of
                  (Inr result, n) \<Rightarrow>
                    (Inr result, emitEvent (EvVolumeChanged trackId volume) (b \<lparr> br_native := n \<rparr>))
                | (Inl err, n) \<Rightarrow>
                    (Inr False, emitEvent (EvError TRACK_NOT_FOUND) (b \<lparr> br_native := n \<rparr>)))))"

definition bridge_setPanning ::
  "'n NativeModule \<Rightarrow> string \<Rightarrow> real \<Rightarrow> 'n bridge \<Rightarrow> (bool, 'n bridge) promise" where
  "bridge_setPanning M trackId pan b =
     (case validateInitialized b of
        Some err \<Rightarrow> (Inl err, b)
      | None \<Rightarrow>
          (case validatePan pan of
             Some err \<Rightarrow> (Inl err, b)
           | None \<Rightarrow>
               (case nm_setPanning M trackId pan (br_native b) of
                  (Inr result, n) \<Rightarrow>
                    (Inr result, emitEvent (EvPanningChanged trackId pan) (b \<lparr> br_native := n \<rparr>))
                | (Inl err, n) \<Rightarrow>
                    (Inr False, emitEvent (EvError TRACK_NOT_FOUND) (b \<lparr> br_native := n \<rparr>)))))"

definition bridge_play :: "'n NativeModule \<Rightarrow> 'n bridge \<Rightarrow> (bool, 'n bridge) promise" where
  "bridge_play M b =
     (case validateInitialized b of
        Some err \<Rightarrow> (Inl err, b)
      | None \<Rightarrow>
          (case nm_play M (br_native b) of
             (Inr result, n) \<Rightarrow>
               (Inr result,
                if result then emitEvent EvPlaybackStarted (b \<lparr> br_native := n \<rparr>)
                else b \<lparr> br_native := n \<rparr>)
           | (Inl err, n) \<Rightarrow>
               (Inr False, emitEvent (EvError PLAYBACK_FAILED) (b \<lparr> br_native := n \<rparr>))))"

text \<open>
  \<^verbatim>\<open>removeTrack\<close>: the whole body is inside \<^verbatim>\<open>try\<close>, and \<^verbatim>\<open>catch\<close> returns \<^verbatim>\<open>false\<close>, so the
  promise always resolves. Without a native \<^verbatim>\<open>removeTrack\<close> it is \<^verbatim>\<open>this.setVolume(trackId, 0)\<close>.
\<close>

definition bridge_removeTrack ::
  "'n NativeModule \<Rightarrow> string \<Rightarrow> 'n bridge \<Rightarrow> (bool, 'n bridge) promise" where
  "bridge_removeTrack M trackId b =
     (case nm_removeTrack M of
        Some native_removeTrack \<Rightarrow>
          (case native_removeTrack trackId (br_native b) of
             (Inr result, n) \<Rightarrow> (Inr result, b \<lparr> br_native := n \<rparr>)
           | (Inl err, n) \<Rightarrow> (Inr False, b \<lparr> br_native := n \<rparr>))
      | None \<Rightarrow>
          (case bridge_setVolume M trackId 0 b of
             (Inr result, b1) \<Rightarrow> (Inr result, b1)
           | (Inl err, b1) \<Rightarrow> (Inr False, b1)))"

definition bridge_getTracks ::
  "'n NativeModule \<Rightarrow> 'n bridge \<Rightarrow> (AudioTrack list, 'n bridge) promise" where
  "bridge_getTracks M b =
     (case nm_getTracks M of
        Some native_getTracks \<Rightarrow>
          (case native_getTracks (br_native b) of
             (Inr result, n) \<Rightarrow> (Inr result, b \<lparr> br_native := n \<rparr>)
           | (Inl err, n) \<Rightarrow> (Inr [], b \<lparr> br_native := n \<rparr>))
      | None \<Rightarrow> (Inr [], b))"

definition bridge_setMasterVolume ::
  "'n NativeModule \<Rightarrow> real \<Rightarrow> 'n bridge \<Rightarrow> (bool, 'n bridge) promise" where
  "bridge_setMasterVolume M volume b =
     (case validateInitialized b of
        Some err \<Rightarrow> (Inl err, b)
      | None \<Rightarrow>
          (case validateVolume volume of
             Some err \<Rightarrow> (Inl err, b)
           | None \<Rightarrow>
               (case nm_setMasterVolume M of
                  Some native_setMasterVolume \<Rightarrow>
                    (case native_setMasterVolume volume (br_native b) of
                       (Inr result, n) \<Rightarrow> (Inr result, b \<lparr> br_native := n \<rparr>)
                     | (Inl err, n) \<Rightarrow> (Inr False, b \<lparr> br_native := n \<rparr>))
                | None \<Rightarrow> (Inr True, b))))"

text \<open>
  The two loops of \<^verbatim>\<open>loadSceneFromObject\<close>. \<^verbatim>\<open>removeTrack\<close> never throws, so the first
  is a plain fold. In the second, a throw of \<^verbatim>\<open>addTrack\<close>, \<^verbatim>\<open>setVolume\<close> or \<^verbatim>\<open>setPanning\<close>
  leaves the loop (\<open>Inl\<close>); a resolved \<^verbatim>\<open>false\<close> of \<^verbatim>\<open>setVolume\<close>/\<^verbatim>\<open>setPanning\<close> is ignored.
\<close>

fun remove_tracks :: "'n NativeModule \<Rightarrow> AudioTrack list \<Rightarrow> 'n bridge \<Rightarrow> 'n bridge" where
  "remove_tracks M [] b = b"
| "remove_tracks M (track # rest) b =
     remove_tracks M rest (snd (bridge_removeTrack M (at_id track) b))"

fun add_tracks :: "'n NativeModule \<Rightarrow> AudioTrack list \<Rightarrow> 'n bridge \<Rightarrow> (unit, 'n bridge) promise" where
  "add_tracks M [] b = (Inr (), b)"
| "add_tracks M (track # rest) b =
     (case bridge_addTrack M (at_id track) (at_file track) b of
        (Inl err, b1) \<Rightarrow> (Inl err, b1)
      | (Inr success, b1) \<Rightarrow>
          if success
          then (case bridge_setVolume M (at_id track) (at_volume track) b1 of
                  (Inl err, b2) \<Rightarrow> (Inl err, b2)
                | (Inr r2, b2) \<Rightarrow>
                    (case bridge_setPanning M (at_id track) (at_pan track) b2 of
                       (Inl err, b3) \<Rightarrow> (Inl err, b3)
                     | (Inr r3, b3) \<Rightarrow> add_tracks M rest b3))
          else add_tracks M rest b1)"

definition loadSceneFromObject ::
  "'n NativeModule \<Rightarrow> AudioScene \<Rightarrow> 'n bridge \<Rightarrow> (bool, 'n bridge) promise" where
  "loadSceneFromObject M scene b =
     (case bridge_getTracks M b of
        (Inl err, b1) \<Rightarrow> (Inr False, b1)
      | (Inr currentTracks, b1) \<Rightarrow>
          (case add_tracks M (sc_tracks scene) (remove_tracks M currentTracks b1) of
             (Inl err, b2) \<Rightarrow> (Inr False, b2)
           | (Inr u, b2) \<Rightarrow> (Inr True, emitEvent EvSceneLoaded b2)))"

datatype scene_arg = SceneId string | SceneObject AudioScene

definition bridge_loadScene ::
  "'n NativeModule \<Rightarrow> scene_arg \<Rightarrow> 'n bridge \<Rightarrow> (bool, 'n bridge) promise" where
  "bridge_loadScene M arg b =
     (case validateInitialized b of
        Some err \<Rightarrow> (Inl err, b)
      | None \<Rightarrow>
          (case arg of
             SceneId sceneId \<Rightarrow>
               (case nm_loadScene M of
                  Some native_loadScene \<Rightarrow>
                    (case native_loadScene sceneId (br_native b) of
                       (Inr result, n) \<Rightarrow>
                         (Inr result,
                          if result then emitEvent EvSceneLoaded (b \<lparr> br_native := n \<rparr>)
                          else b \<lparr> br_native := n \<rparr>)
                     | (Inl err, n) \<Rightarrow> (Inr False, b \<lparr> br_native := n \<rparr>))
                | None \<Rightarrow> (Inr False, b))
           | SceneObject scene \<Rightarrow> loadSceneFromObject M scene b))"

subsection \<open>What is observed of a track\<close>

text \<open>
  The gain pair last applied to a track's player, and the volume and pan stored in its
  \<^verbatim>\<open>TrackConfig\<close> (the values \<^verbatim>\<open>saveScene\<close> writes out).
\<close>

definition applied_gain :: "engine \<Rightarrow> string \<Rightarrow> (real \<times> real) option" where
  "applied_gain s k = (case map_of (players s) k of None \<Rightarrow> None | Some p \<Rightarrow> mp_gain p)"

definition stored_volume :: "engine \<Rightarrow> string \<Rightarrow> real option" where
  "stored_volume s k = map_option tc_volume (map_of (trackConfigs s) k)"

definition stored_pan :: "engine \<Rightarrow> string \<Rightarrow> real option" where
  "stored_pan s k = map_option tc_pan (map_of (trackConfigs s) k)"

definition ios_applied_volume :: "ios_engine \<Rightarrow> string \<Rightarrow> real option" where
  "ios_applied_volume s k = map_option an_volume (map_of (ios_players s) k)"

definition ios_stored_volume :: "ios_engine \<Rightarrow> string \<Rightarrow> real option" where
  "ios_stored_volume s k = map_option tc_volume (map_of (ios_trackConfigs s) k)"

text \<open>All that the loop bodies of the Android module read and write of one track.\<close>

definition track_view :: "engine \<Rightarrow> string \<Rightarrow> MediaPlayer option \<times> TrackConfig option \<times> real" where
  "track_view s k = (map_of (players s) k, map_of (trackConfigs s) k, masterVolume s)"

definition track_ids :: "engine \<Rightarrow> string list" where
  "track_ids s = map fst (trackConfigs s)"



text \<open>All that the loop bodies of the iOS module read and write of one track.\<close>

definition ios_track_view ::
  "ios_engine \<Rightarrow> string \<Rightarrow> AVAudioPlayerNode option \<times> string option \<times> TrackConfig option" where
  "ios_track_view s k =
     (map_of (ios_players s) k, map_of (ios_audioFiles s) k, map_of (ios_trackConfigs s) k)"

text \<open>
  A track of a scene record that the Android module can load (its file is an asset, its
  values are in their domains), and the configuration it is loaded as.
\<close>

definition track_ok :: "engine \<Rightarrow> AudioTrack \<Rightarrow> bool" where
  "track_ok n t = (at_file t \<in> set (assets n) \<and> 0 \<le> at_volume t \<and> at_volume t \<le> 1 \<and>
                   - 1 \<le> at_pan t \<and> at_pan t \<le> 1)"

definition saved_config :: "AudioTrack \<Rightarrow> TrackConfig" where
  "saved_config t =
     (new_TrackConfig (at_id t) (at_file t) (at_file t))
       \<lparr> tc_volume := at_volume t, tc_pan := at_pan t \<rparr>"

section \<open>Properties\<close>

lemmas android_defs =
  android_initialize_def android_addTrack_def android_setVolume_def android_setPanning_def
  android_play_def android_pause_def android_stop_def android_setTimer_def
  handleTimerTick_def handleTimerExpired_def stop_body_def cancelTimer_def
  play_entry_def pause_entry_def stop_entry_def fade_entry_def sendEvent_def
  new_engine_def new_MediaPlayer_def new_TrackConfig_def
  mp_isPlaying_def mp_start_def mp_pause_def mp_stop_prepare_def mp_setVolume_def
  android_run_def double_to_long_def Let_def
  onCatalystInstanceDestroy_def release_entry_def

lemmas bridge_defs =
  AndroidModule_def IosModule_def new_bridge_def emitEvent_def validateInitialized_def
  validateVolume_def validatePan_def bridge_initialize_def bridge_addTrack_def
  bridge_setVolume_def bridge_setPanning_def bridge_removeTrack_def bridge_getTracks_def
  bridge_setMasterVolume_def loadSceneFromObject_def bridge_loadScene_def bridge_play_def

lemmas ios_defs =
  ios_initialize_def ios_addTrack_def ios_setVolume_def ios_setPanning_def ios_play_def
  ios_pause_def ios_stop_def ios_setTimer_def ios_handleTimerTick_def
  ios_handleTimerExpired_def ios_cancelTimer_def ios_play_entry_def ios_pause_entry_def
  ios_stop_entry_def ios_fade_entry_def ios_modify_config_def new_ios_engine_def
  new_AVAudioPlayerNode_def new_TrackConfig_def ios_run_def Let_def

subsection \<open>Folds over the entries of a map\<close>

lemma fold_keeps:
  assumes "\<And>e s. g (f e s) = g s"
  shows "g (fold f es s) = g s"
  using assms by (induction es arbitrary: s) simp_all

subsection \<open>The master volume is never assigned\<close>











subsection \<open>The pan law of \<^verbatim>\<open>setPanning\<close>\<close>

text \<open>
  C6 (as amended). For a track of the Android module with stored volume and master volume
  in \<open>[0, 1]\<close>, \<^verbatim>\<open>setPanning(id, pan)\<close> stores the clamped pan \<open>p\<close> and applies, with
  \<open>base = volume * masterVolume\<close> and no fade multiplier: left \<open>base\<close> and right
  \<open>base * (1 + p)\<close> when \<open>p < 0\<close>, left \<open>base * (1 - p)\<close> and right \<open>base\<close> when \<open>p \<ge> 0\<close>.
  So pan \<open>-1\<close> gives \<open>(base, 0)\<close>, pan \<open>1\<close> gives \<open>(0, base)\<close>, pan \<open>0\<close> gives
  \<open>(base, base)\<close>, and both gains lie in \<open>[0, 1]\<close>.
\<close>

theorem setPanning_pan_law:
  assumes "map_of (players s) trackId = Some player"
    and "map_of (trackConfigs s) trackId = Some config"
    and "0 \<le> tc_volume config" and "tc_volume config \<le> 1"
    and "0 \<le> masterVolume s" and "masterVolume s \<le> 1"
  shows "let base = tc_volume config * masterVolume s;
             p = max (- 1) (min 1 pan);
             s' = snd (android_setPanning trackId pan s)
         in stored_pan s' trackId = Some p \<and>
            applied_gain s' trackId =
              Some (if p < 0 then (base, base * (1 + p)) else (base * (1 - p), base)) \<and>
            (p = - 1 \<longrightarrow> applied_gain s' trackId = Some (base, 0)) \<and>
            (p = 1 \<longrightarrow> applied_gain s' trackId = Some (0, base)) \<and>
            (p = 0 \<longrightarrow> applied_gain s' trackId = Some (base, base)) \<and>
            (case applied_gain s' trackId of
               None \<Rightarrow> False
             | Some (l, r) \<Rightarrow> 0 \<le> l \<and> l \<le> 1 \<and> 0 \<le> r \<and> r \<le> 1)"
proof -
  define base where "base = tc_volume config * masterVolume s"
  define p where "p = max (- 1) (min 1 pan)"
  have b: "0 \<le> base" "base \<le> 1"
    using assms(3-6) by (simp_all add: base_def mult_le_one)
  have p: "- 1 \<le> p" "p \<le> 1" by (simp_all add: p_def)
  have g: "applied_gain (snd (android_setPanning trackId pan s)) trackId =
      Some (if p < 0 then (base, base * (1 + p)) else (base * (1 - p), base))"
    using assms(1,2)
    by (auto simp add: android_setPanning_def applied_gain_def mp_setVolume_def Let_def
        AList.update_conv' base_def p_def)
  have sp: "stored_pan (snd (android_setPanning trackId pan s)) trackId = Some p"
    using assms(1,2)
    by (simp add: android_setPanning_def stored_pan_def Let_def AList.update_conv' p_def)
  have r1: "0 \<le> base * (1 + p)" "0 \<le> base * (1 - p)" using b p by simp_all
  have r2: "base * (1 + p) \<le> 1" if "p < 0"
    using b p that by (intro mult_le_one) simp_all
  have r3: "base * (1 - p) \<le> 1" if "0 \<le> p"
    using b p that by (intro mult_le_one) simp_all
  show ?thesis
    unfolding Let_def base_def [symmetric] p_def [symmetric]
    using g sp b r1 r2 r3 by auto
qed

theorem setPanning_pan_law_witness:
  "map_of (players (android_run [Initialize, AddTrack ''rain'' ''rain.ogg'']
       (new_engine [''rain.ogg'']))) ''rain'' = Some new_MediaPlayer \<and>
   stored_pan (snd (android_setPanning ''rain'' (- 0.5)
       (android_run [Initialize, AddTrack ''rain'' ''rain.ogg''] (new_engine [''rain.ogg''])))) ''rain''
     = Some (- 0.5) \<and>
   applied_gain (snd (android_setPanning ''rain'' (- 0.5)
       (android_run [Initialize, AddTrack ''rain'' ''rain.ogg''] (new_engine [''rain.ogg''])))) ''rain''
     = Some (0.5, 0.25)"
proof -
  let ?s = "android_run [Initialize, AddTrack ''rain'' ''rain.ogg''] (new_engine [''rain.ogg''])"
  let ?c = "new_TrackConfig ''rain'' ''rain.ogg'' ''rain.ogg''"
  have h1: "map_of (players ?s) ''rain'' = Some new_MediaPlayer"
    by (simp add: android_defs)
  have h2: "map_of (trackConfigs ?s) ''rain'' = Some ?c"
    by (simp add: android_defs)
  have h3: "0 \<le> tc_volume ?c" and h4: "tc_volume ?c \<le> 1"
    by (simp_all add: new_TrackConfig_def)
  have h5: "0 \<le> masterVolume ?s" and h6: "masterVolume ?s \<le> 1"
    by (simp_all add: android_defs)
  have m: "masterVolume ?s = 1" by (simp add: android_defs)
  show ?thesis
    using h1 setPanning_pan_law [OF h1 h2 h3 h4 h5 h6, of "- 0.5"]
    by (simp add: Let_def new_TrackConfig_def m)
qed

text \<open>
  C6 as stated, with the fade multiplier as a factor of the base gain, fails while a fade
  is in progress. A playing track of volume 0.5 is one second into a fade of 7.5 seconds:
  the tick has applied the multiplier \<open>6500/7500\<close>. \<^verbatim>\<open>setPanning(rain, -1)\<close> then applies
  the left gain \<open>0.5 = volume * masterVolume\<close>, not \<open>0.5 * 1 * 6500/7500\<close>.
\<close>

theorem setPanning_during_fade_counterexample:
  "applied_gain (android_run [Initialize, AddTrack ''rain'' ''rain.ogg'', Play,
       SetTimer 0.125 True 0.125 0, TimerTick 0, TimerTick 1000]
       (new_engine [''rain.ogg''])) ''rain'' = Some (0.5 * 1 * (6500 / 7500), 0.5 * 1 * (6500 / 7500)) \<and>
   stored_volume (android_run [Initialize, AddTrack ''rain'' ''rain.ogg'', Play,
       SetTimer 0.125 True 0.125 0, TimerTick 0, TimerTick 1000, SetPanning ''rain'' (- 1)]
       (new_engine [''rain.ogg''])) ''rain'' = Some 0.5 \<and>
   applied_gain (android_run [Initialize, AddTrack ''rain'' ''rain.ogg'', Play,
       SetTimer 0.125 True 0.125 0, TimerTick 0, TimerTick 1000, SetPanning ''rain'' (- 1)]
       (new_engine [''rain.ogg''])) ''rain'' = Some (0.5, 0) \<and>
   applied_gain (android_run [Initialize, AddTrack ''rain'' ''rain.ogg'', Play,
       SetTimer 0.125 True 0.125 0, TimerTick 0, TimerTick 1000, SetPanning ''rain'' (- 1)]
       (new_engine [''rain.ogg''])) ''rain'' \<noteq> Some (0.5 * 1 * (6500 / 7500), 0)"
  by (simp add: android_defs applied_gain_def stored_volume_def)

subsection \<open>\<^verbatim>\<open>setVolume\<close> and the stored pan\<close>

text \<open>
  C7 (the Android \<^verbatim>\<open>setVolume\<close> at a failing input). A track is added, panned fully left
  with \<^verbatim>\<open>setPanning(rain, -1)\<close>, started, and then \<^verbatim>\<open>setVolume(rain, 0.5)\<close> is called. The
  stored pan is still \<open>-1\<close>, for which the pan law gives the gains \<open>(0.5, 0)\<close>; the module
  applies \<open>(0.5, 0.5)\<close>, the same gain on both channels.
\<close>

theorem setVolume_ignores_pan:
  "stored_pan (android_run [Initialize, AddTrack ''rain'' ''rain.ogg'', SetPanning ''rain'' (- 1),
       Play, SetVolume ''rain'' 0.5] (new_engine [''rain.ogg''])) ''rain'' = Some (- 1) \<and>
   applied_gain (android_run [Initialize, AddTrack ''rain'' ''rain.ogg'', SetPanning ''rain'' (- 1),
       Play, SetVolume ''rain'' 0.5] (new_engine [''rain.ogg''])) ''rain'' = Some (0.5, 0.5) \<and>
   applied_gain (android_run [Initialize, AddTrack ''rain'' ''rain.ogg'', SetPanning ''rain'' (- 1),
       Play, SetVolume ''rain'' 0.5] (new_engine [''rain.ogg''])) ''rain'' \<noteq> Some (0.5, 0)"
  by (simp add: android_defs applied_gain_def stored_pan_def)

subsection \<open>A loop over the entries of a map, seen at one key\<close>

text \<open>
  When the body for the entry of key \<open>k\<close> changes nothing that is seen at another key, and
  what it leaves at \<open>k\<close> depends only on what was seen at \<open>k\<close>, the loop leaves at each key
  what the body for that key alone leaves.
\<close>

lemma fold_entries_lookup:
  fixes look :: "'s \<Rightarrow> 'k \<Rightarrow> 'v" and f :: "'k \<times> 'e \<Rightarrow> 's \<Rightarrow> 's"
  assumes loc: "\<And>k e s k'. k' \<noteq> k \<Longrightarrow> look (f (k, e) s) k' = look s k'"
    and dep: "\<And>k e s s'. look s k = look s' k \<Longrightarrow> look (f (k, e) s) k = look (f (k, e) s') k"
    and dist: "distinct (map fst es)"
  shows "look (fold f es s) k =
           (case map_of es k of None \<Rightarrow> look s k | Some e \<Rightarrow> look (f (k, e) s) k)"
  using dist
proof (induction es arbitrary: s)
  case Nil
  then show ?case by simp
next
  case (Cons x es)
  obtain k0 e0 where x: "x = (k0, e0)" by (cases x)
  from Cons.prems x have notin: "k0 \<notin> fst ` set es" and d: "distinct (map fst es)"
    by simp_all
  have IH: "look (fold f es (f (k0, e0) s)) k =
      (case map_of es k of None \<Rightarrow> look (f (k0, e0) s) k
       | Some e \<Rightarrow> look (f (k, e) (f (k0, e0) s)) k)"
    using Cons.IH [OF d] .
  show ?case
  proof (cases "k = k0")
    case True
    with notin have "map_of es k = None" by (simp add: map_of_eq_None_iff)
    with IH True x show ?thesis by simp
  next
    case False
    then have same: "look (f (k0, e0) s) k = look s k" by (rule loc)
    have "look (f (k, e) (f (k0, e0) s)) k = look (f (k, e) s) k" for e
      by (rule dep) (rule same)
    with IH same False x show ?thesis by (simp split: option.splits)
  qed
qed

subsection \<open>\<^verbatim>\<open>play\<close>\<close>








subsection \<open>The fade tick\<close>

lemma fade_entry_other:
  "k' \<noteq> k \<Longrightarrow> track_view (fade_entry t (k, e) s) k' = track_view s k'"
  by (simp add: track_view_def fade_entry_def AList.update_conv' Let_def split: option.splits)

lemma fade_entry_same:
  "track_view s k = track_view s' k \<Longrightarrow>
   track_view (fade_entry t (k, e) s) k = track_view (fade_entry t (k, e) s') k"
  by (simp add: track_view_def fade_entry_def AList.update_conv' Let_def split: option.splits)

lemma track_view_fade_loop:
  assumes "distinct (map fst (trackConfigs s))"
  shows "track_view (fold (fade_entry t) (trackConfigs s) s) k =
           (case map_of (trackConfigs s) k of
              None \<Rightarrow> track_view s k
            | Some config \<Rightarrow> track_view (fade_entry t (k, config) s) k)"
  using fade_entry_other fade_entry_same assms
  by (rule fold_entries_lookup [where look = track_view and f = "fade_entry t"])

lemma trackConfigs_fade_entry: "trackConfigs (fade_entry t e s) = trackConfigs s"
  by (simp add: fade_entry_def Let_def split: prod.splits option.splits)

lemma android_fade_tick:
  assumes tc: "timerConfig s = Some tc" and fo: "fadeOut tc"
    and rem: "remaining = duration tc - (now - timerStartTime s)"
    and pos: "0 < remaining" and win: "remaining \<le> fadeOutDuration tc"
    and dist: "distinct (map fst (trackConfigs s))"
    and pl: "map_of (players s) k = Some player"
    and cf: "map_of (trackConfigs s) k = Some config"
  shows "trackConfigs (handleTimerTick now s) = trackConfigs s"
    and "tc_isPlaying config \<Longrightarrow>
         applied_gain (handleTimerTick now s) k =
           Some (tc_volume config * (real_of_int remaining / real_of_int (fadeOutDuration tc))
                   * masterVolume s,
                 tc_volume config * (real_of_int remaining / real_of_int (fadeOutDuration tc))
                   * masterVolume s)"
    and "\<not> tc_isPlaying config \<Longrightarrow> applied_gain (handleTimerTick now s) k = applied_gain s k"
proof -
  let ?t = "1 - (1 - real_of_int remaining / real_of_int (fadeOutDuration tc))"
  have tick: "handleTimerTick now s = fold (fade_entry ?t) (trackConfigs s) s"
    using tc fo rem pos win by (simp add: handleTimerTick_def Let_def)
  show "trackConfigs (handleTimerTick now s) = trackConfigs s"
    unfolding tick by (rule fold_keeps) (rule trackConfigs_fade_entry)
  have v: "track_view (handleTimerTick now s) k = track_view (fade_entry ?t (k, config) s) k"
    unfolding tick using track_view_fade_loop [OF dist, of ?t k] cf by simp
  have pv: "map_of (players (handleTimerTick now s)) k =
      map_of (players (fade_entry ?t (k, config) s)) k"
    using v by (simp add: track_view_def)
  show "applied_gain (handleTimerTick now s) k =
           Some (tc_volume config * (real_of_int remaining / real_of_int (fadeOutDuration tc))
                   * masterVolume s,
                 tc_volume config * (real_of_int remaining / real_of_int (fadeOutDuration tc))
                   * masterVolume s)" if "tc_isPlaying config"
    using that pl
    by (simp add: applied_gain_def pv fade_entry_def Let_def AList.update_conv' mp_setVolume_def)
  show "applied_gain (handleTimerTick now s) k = applied_gain s k" if "\<not> tc_isPlaying config"
    using that pl
    by (simp add: applied_gain_def pv fade_entry_def Let_def)
qed

text \<open>
  C1 (the iOS tick at a failing input). A track is added, \<^verbatim>\<open>setVolume(rain, 1)\<close>, started,
  and a timer of 0.125 minutes (7.5 seconds) with a fade of the same length is armed at
  time 0; the timer ticks after 1 and after 2 seconds. The stored volume stays 1
  throughout. The first tick (6.5 seconds remaining) sets the node's volume to
  \<open>6.5/7.5 = 13/15\<close>. The second tick (5.5 seconds remaining, multiplier \<open>5.5/7.5 = 11/15\<close>)
  sets it to \<open>13/15 * 11/15 = 143/225\<close>: the multiplier is applied to the volume the
  previous tick left, not to the stored volume, for which the gain would be
  \<open>1 * 1 * 11/15\<close>.
\<close>

theorem ios_fade_compounds:
  "ios_stored_volume (ios_run [IosInitialize, IosAddTrack ''rain'' ''rain.ogg'',
       IosSetVolume ''rain'' 1, IosPlay, IosSetTimer 0.125 True 0.125 0, IosTimerTick 1,
       IosTimerTick 2] (new_ios_engine [''rain.ogg''])) ''rain'' = Some 1 \<and>
   ios_applied_volume (ios_run [IosInitialize, IosAddTrack ''rain'' ''rain.ogg'',
       IosSetVolume ''rain'' 1, IosPlay, IosSetTimer 0.125 True 0.125 0, IosTimerTick 1]
       (new_ios_engine [''rain.ogg''])) ''rain'' = Some (13 / 15) \<and>
   ios_applied_volume (ios_run [IosInitialize, IosAddTrack ''rain'' ''rain.ogg'',
       IosSetVolume ''rain'' 1, IosPlay, IosSetTimer 0.125 True 0.125 0, IosTimerTick 1,
       IosTimerTick 2] (new_ios_engine [''rain.ogg''])) ''rain'' = Some (143 / 225) \<and>
   ios_applied_volume (ios_run [IosInitialize, IosAddTrack ''rain'' ''rain.ogg'',
       IosSetVolume ''rain'' 1, IosPlay, IosSetTimer 0.125 True 0.125 0, IosTimerTick 1,
       IosTimerTick 2] (new_ios_engine [''rain.ogg''])) ''rain'' \<noteq> Some (1 * 1 * (5.5 / 7.5))"
  by (simp add: ios_defs ios_applied_volume_def ios_stored_volume_def)

subsection \<open>\<^verbatim>\<open>setTimer\<close> and the fade window\<close>

text \<open>
  C2 as stated fails. Armed with a duration of 5 minutes and a fade of 10 minutes, the
  Android module stores a fade duration of 600000 ms, and the tick at the moment of arming
  (300000 ms remaining) applies the multiplier \<open>300000/600000\<close> to a playing track of
  volume 0.5: gain 0.25. Armed with a fade of 5 minutes it stores 300000 ms and the same
  tick applies the multiplier 1: gain 0.5.
\<close>

theorem setTimer_clamp_counterexample:
  "map_option fadeOutDuration (timerConfig (android_run
       [Initialize, AddTrack ''rain'' ''rain.ogg'', Play, SetTimer 5 True 10 1000]
       (new_engine [''rain.ogg'']))) = Some 600000 \<and>
   map_option fadeOutDuration (timerConfig (android_run
       [Initialize, AddTrack ''rain'' ''rain.ogg'', Play, SetTimer 5 True 5 1000]
       (new_engine [''rain.ogg'']))) = Some 300000 \<and>
   applied_gain (android_run
       [Initialize, AddTrack ''rain'' ''rain.ogg'', Play, SetTimer 5 True 10 1000, TimerTick 1000]
       (new_engine [''rain.ogg''])) ''rain'' = Some (0.25, 0.25) \<and>
   applied_gain (android_run
       [Initialize, AddTrack ''rain'' ''rain.ogg'', Play, SetTimer 5 True 5 1000, TimerTick 1000]
       (new_engine [''rain.ogg''])) ''rain'' = Some (0.5, 0.5)"
  by (simp add: android_defs applied_gain_def)

text \<open>
  C2 (as amended). \<^verbatim>\<open>setTimer\<close> stores the fade duration it is given, converted to
  milliseconds on Android and to seconds on iOS, whatever the total duration is; nothing
  compares the two.
\<close>

theorem setTimer_stores_fadeOutDuration_unclamped:
  "timerConfig (snd (android_setTimer dur fo fod now s)) =
     Some \<lparr> duration = double_to_long (dur * 60 * 1000), fadeOut = fo,
            fadeOutDuration = double_to_long (fod * 60 * 1000) \<rparr> \<and>
   timerStartTime (snd (android_setTimer dur fo fod now s)) = now \<and>
   ios_timerConfig (snd (ios_setTimer dur fo fod now' s')) =
     Some \<lparr> ios_duration = dur * 60, ios_fadeOut = fo, ios_fadeOutDuration = fod * 60 \<rparr> \<and>
   ios_timerStartTime (snd (ios_setTimer dur fo fod now' s')) = Some now'"
  by (simp add: android_setTimer_def ios_setTimer_def Let_def)

subsection \<open>\<^verbatim>\<open>stop\<close>\<close>

text \<open>
  C8 (the Android \<^verbatim>\<open>stop\<close> at a failing input). A track is started and then paused, so
  its player is \<open>Paused\<close> and \<^verbatim>\<open>isPlaying()\<close> is false. \<^verbatim>\<open>stop()\<close> calls
  \<^verbatim>\<open>player.stop(); player.prepare()\<close> only under \<^verbatim>\<open>if (player.isPlaying())\<close>, so the player
  stays \<open>Paused\<close> at the position where it was paused. A track stopped while playing is
  re-prepared.
\<close>

theorem stop_skips_paused_player:
  "map_option mp_status (map_of (players (android_run
       [Initialize, AddTrack ''rain'' ''rain.ogg'', Play, Pause]
       (new_engine [''rain.ogg'']))) ''rain'') = Some Paused \<and>
   map_option mp_status (map_of (players (android_run
       [Initialize, AddTrack ''rain'' ''rain.ogg'', Play, Pause, Stop]
       (new_engine [''rain.ogg'']))) ''rain'') = Some Paused \<and>
   map_option mp_status (map_of (players (android_run
       [Initialize, AddTrack ''rain'' ''rain.ogg'', Play, Stop]
       (new_engine [''rain.ogg'']))) ''rain'') = Some Prepared"
  by (simp add: android_defs)

subsection \<open>Stored volume and pan stay in their domains\<close>

lemma fold_invariant:
  assumes "P s" and "\<And>e s. P s \<Longrightarrow> P (f e s)"
  shows "P (fold f es s)"
  using assms(1) by (induction es arbitrary: s) (simp_all add: assms(2))


























subsection \<open>\<^verbatim>\<open>removeTrack\<close>\<close>




subsection \<open>\<^verbatim>\<open>loadScene\<close> with a scene record\<close>

text \<open>
  C3 (\<^verbatim>\<open>loadSceneFromObject\<close> at a failing input). The engine holds the track \<open>rain\<close>; a
  scene with the single track \<open>ocean\<close> is loaded. The load resolves to \<^verbatim>\<open>true\<close>, and the
  track set is then \<open>rain, ocean\<close>: \<^verbatim>\<open>getTracks\<close> has no native method behind it and
  returns the empty list, so the loop that is to clear the current tracks runs over nothing.
  The track of the scene is added with its saved volume and pan, and is not started.
\<close>

theorem loadScene_keeps_old_tracks:
  "fst (bridge_loadScene AndroidModule
     (SceneObject \<lparr> sc_id = ''s1'', sc_name = ''sea'', sc_tracks =
        [\<lparr> at_id = ''ocean'', at_file = ''ocean.ogg'', at_isPlaying = False,
           at_volume = 0.25, at_pan = 0.5 \<rparr>] \<rparr>)
     (snd (bridge_addTrack AndroidModule ''rain'' ''rain.ogg''
       (snd (bridge_initialize AndroidModule
         (new_bridge (new_engine [''rain.ogg'', ''ocean.ogg''])))))))
     = Inr True \<and>
   track_ids (br_native (snd (bridge_loadScene AndroidModule
     (SceneObject \<lparr> sc_id = ''s1'', sc_name = ''sea'', sc_tracks =
        [\<lparr> at_id = ''ocean'', at_file = ''ocean.ogg'', at_isPlaying = False,
           at_volume = 0.25, at_pan = 0.5 \<rparr>] \<rparr>)
     (snd (bridge_addTrack AndroidModule ''rain'' ''rain.ogg''
       (snd (bridge_initialize AndroidModule
         (new_bridge (new_engine [''rain.ogg'', ''ocean.ogg''])))))))))
     = [''rain'', ''ocean''] \<and>
   fst (bridge_getTracks AndroidModule (snd (bridge_loadScene AndroidModule
     (SceneObject \<lparr> sc_id = ''s1'', sc_name = ''sea'', sc_tracks =
        [\<lparr> at_id = ''ocean'', at_file = ''ocean.ogg'', at_isPlaying = False,
           at_volume = 0.25, at_pan = 0.5 \<rparr>] \<rparr>)
     (snd (bridge_addTrack AndroidModule ''rain'' ''rain.ogg''
       (snd (bridge_initialize AndroidModule
         (new_bridge (new_engine [''rain.ogg'', ''ocean.ogg''])))))))))
     = Inr [] \<and>
   stored_volume (br_native (snd (bridge_loadScene AndroidModule
     (SceneObject \<lparr> sc_id = ''s1'', sc_name = ''sea'', sc_tracks =
        [\<lparr> at_id = ''ocean'', at_file = ''ocean.ogg'', at_isPlaying = False,
           at_volume = 0.25, at_pan = 0.5 \<rparr>] \<rparr>)
     (snd (bridge_addTrack AndroidModule ''rain'' ''rain.ogg''
       (snd (bridge_initialize AndroidModule
         (new_bridge (new_engine [''rain.ogg'', ''ocean.ogg'']))))))))) ''ocean'' = Some 0.25 \<and>
   stored_pan (br_native (snd (bridge_loadScene AndroidModule
     (SceneObject \<lparr> sc_id = ''s1'', sc_name = ''sea'', sc_tracks =
        [\<lparr> at_id = ''ocean'', at_file = ''ocean.ogg'', at_isPlaying = False,
           at_volume = 0.25, at_pan = 0.5 \<rparr>] \<rparr>)
     (snd (bridge_addTrack AndroidModule ''rain'' ''rain.ogg''
       (snd (bridge_initialize AndroidModule
         (new_bridge (new_engine [''rain.ogg'', ''ocean.ogg'']))))))))) ''ocean'' = Some 0.5 \<and>
   map_option mp_status (map_of (players (br_native (snd (bridge_loadScene AndroidModule
     (SceneObject \<lparr> sc_id = ''s1'', sc_name = ''sea'', sc_tracks =
        [\<lparr> at_id = ''ocean'', at_file = ''ocean.ogg'', at_isPlaying = False,
           at_volume = 0.25, at_pan = 0.5 \<rparr>] \<rparr>)
     (snd (bridge_addTrack AndroidModule ''rain'' ''rain.ogg''
       (snd (bridge_initialize AndroidModule
         (new_bridge (new_engine [''rain.ogg'', ''ocean.ogg''])))))))))) ''ocean'') = Some Prepared"
  by (simp add: bridge_defs android_defs track_ids_def stored_volume_def stored_pan_def)

text \<open>One round of the loop that adds the tracks of the scene, on the Android module.\<close>

lemma add_track_step:
  assumes "br_isInitialized b" and "isInitialized (br_native b)" and "track_ok (br_native b) t"
  obtains b3 where "add_tracks AndroidModule (t # ts) b = add_tracks AndroidModule ts b3"
    and "br_isInitialized b3" and "isInitialized (br_native b3)"
    and "assets (br_native b3) = assets (br_native b)"
    and "map_of (trackConfigs (br_native b3)) =
           (map_of (trackConfigs (br_native b)))(at_id t \<mapsto> saved_config t)"
    and "map_of (players (br_native b3)) (at_id t) \<noteq> None"
    and "\<And>k. k \<noteq> at_id t \<Longrightarrow>
           map_of (players (br_native b3)) k = map_of (players (br_native b)) k"
proof -
  define b3 where "b3 = snd (bridge_setPanning AndroidModule (at_id t) (at_pan t)
     (snd (bridge_setVolume AndroidModule (at_id t) (at_volume t)
       (snd (bridge_addTrack AndroidModule (at_id t) (at_file t) b)))))"
  have vol: "max 0 (min 1 (at_volume t)) = at_volume t"
    and pan: "max (- 1) (min 1 (at_pan t)) = at_pan t"
    using assms(3) by (simp_all add: track_ok_def)
  have fl: "at_file t \<in> set (assets (br_native b))" 
    and rng: "\<not> at_volume t < 0" "\<not> 1 < at_volume t" "\<not> at_pan t < - 1" "\<not> 1 < at_pan t"
    using assms(3) by (simp_all add: track_ok_def)
  have 1: "add_tracks AndroidModule (t # ts) b = add_tracks AndroidModule ts b3"
    using assms(1,2) fl rng
    by (simp add: b3_def bridge_addTrack_def bridge_setVolume_def bridge_setPanning_def
        validateInitialized_def validateVolume_def validatePan_def AndroidModule_def
        android_addTrack_def android_setVolume_def android_setPanning_def sendEvent_def
        emitEvent_def Let_def AList.update_conv')
  have 2: "br_isInitialized b3" "isInitialized (br_native b3)"
    "assets (br_native b3) = assets (br_native b)"
    using assms(1,2) fl rng
    by (simp_all add: b3_def bridge_addTrack_def bridge_setVolume_def bridge_setPanning_def
        validateInitialized_def validateVolume_def validatePan_def AndroidModule_def
        android_addTrack_def android_setVolume_def android_setPanning_def sendEvent_def
        emitEvent_def Let_def AList.update_conv')
  have 3: "map_of (trackConfigs (br_native b3)) =
           (map_of (trackConfigs (br_native b)))(at_id t \<mapsto> saved_config t)"
    using assms(1,2) fl rng
    by (simp add: b3_def bridge_addTrack_def bridge_setVolume_def bridge_setPanning_def
        validateInitialized_def validateVolume_def validatePan_def AndroidModule_def
        android_addTrack_def android_setVolume_def android_setPanning_def sendEvent_def
        emitEvent_def Let_def AList.update_conv' vol pan saved_config_def)
  have 4: "map_of (players (br_native b3)) (at_id t) \<noteq> None"
    "\<And>k. k \<noteq> at_id t \<Longrightarrow>
           map_of (players (br_native b3)) k = map_of (players (br_native b)) k"
    using assms(1,2) fl rng
    by (simp_all add: b3_def bridge_addTrack_def bridge_setVolume_def bridge_setPanning_def
        validateInitialized_def validateVolume_def validatePan_def AndroidModule_def
        android_addTrack_def android_setVolume_def android_setPanning_def sendEvent_def
        emitEvent_def Let_def AList.update_conv')
  from 1 2 3 4 show ?thesis by (rule that)
qed

lemma add_tracks_android:
  assumes "br_isInitialized b" and "isInitialized (br_native b)"
    and "distinct (map at_id ts)"
    and "\<forall>t \<in> set ts. track_ok (br_native b) t"
  shows "fst (add_tracks AndroidModule ts b) = Inr () \<and>
         map_of (trackConfigs (br_native (snd (add_tracks AndroidModule ts b)))) k =
           (case find (\<lambda>t. at_id t = k) ts of
              None \<Rightarrow> map_of (trackConfigs (br_native b)) k
            | Some t \<Rightarrow> Some (saved_config t))"
  using assms
proof (induction ts arbitrary: b)
  case Nil
  then show ?case by simp
next
  case (Cons t ts)
  from Cons.prems have ok: "track_ok (br_native b) t" by simp
  from Cons.prems(1,2) ok obtain b3 where
    step: "add_tracks AndroidModule (t # ts) b = add_tracks AndroidModule ts b3"
    and i3: "br_isInitialized b3" "isInitialized (br_native b3)"
    and a3: "assets (br_native b3) = assets (br_native b)"
    and c3: "map_of (trackConfigs (br_native b3)) =
           (map_of (trackConfigs (br_native b)))(at_id t \<mapsto> saved_config t)"
    by (rule add_track_step)
  from Cons.prems have d: "distinct (map at_id ts)" and notin: "at_id t \<notin> at_id ` set ts"
    by simp_all
  from Cons.prems(4) a3 have oks: "\<forall>t \<in> set ts. track_ok (br_native b3) t"
    by (simp add: track_ok_def)
  note IH = Cons.IH [OF i3 d oks]
  have none: "find (\<lambda>u. at_id u = at_id t) ts = None"
  proof -
    from notin have "\<forall>u \<in> set ts. at_id u \<noteq> at_id t" by (metis image_eqI)
    then show ?thesis by (simp add: find_None_iff)
  qed
  show ?case
  proof (cases "k = at_id t")
    case True
    with IH none c3 step show ?thesis by simp
  next
    case False
    with IH c3 step show ?thesis by (auto split: option.splits)
  qed
qed


text \<open>
  Into an engine without tracks, a scene whose tracks have distinct ids, files among the
  assets and values in their domains is loaded as it was saved: the track set is the
  scene's, each track with its saved volume and pan and not playing.
\<close>

lemma loadScene_into_fresh_engine:
  assumes "br_isInitialized b" and "isInitialized (br_native b)"
    and "trackConfigs (br_native b) = []"
    and "distinct (map at_id (sc_tracks scene))"
    and "\<forall>t \<in> set (sc_tracks scene). track_ok (br_native b) t"
  shows "fst (bridge_loadScene AndroidModule (SceneObject scene) b) = Inr True"
    and "map_of (trackConfigs (br_native (snd (bridge_loadScene AndroidModule (SceneObject scene) b)))) k
           = map_option saved_config (find (\<lambda>t. at_id t = k) (sc_tracks scene))"
proof -
  let ?r = "add_tracks AndroidModule (sc_tracks scene) b"
  have a: "fst ?r = Inr () \<and>
      map_of (trackConfigs (br_native (snd ?r))) k =
        (case find (\<lambda>t. at_id t = k) (sc_tracks scene) of
           None \<Rightarrow> map_of (trackConfigs (br_native b)) k
         | Some t \<Rightarrow> Some (saved_config t))"
    using assms(1,2,4,5) by (rule add_tracks_android)
  obtain u b2 where r: "?r = (Inr u, b2)"
    using a by (cases ?r) auto
  have l: "bridge_loadScene AndroidModule (SceneObject scene) b =
      (Inr True, emitEvent EvSceneLoaded b2)"
    using assms(1) r
    by (simp add: bridge_loadScene_def loadSceneFromObject_def bridge_getTracks_def
        validateInitialized_def AndroidModule_def)
  show "fst (bridge_loadScene AndroidModule (SceneObject scene) b) = Inr True"
    by (simp add: l)
  show "map_of (trackConfigs (br_native (snd (bridge_loadScene AndroidModule (SceneObject scene) b)))) k
           = map_option saved_config (find (\<lambda>t. at_id t = k) (sc_tracks scene))"
    using a r assms(3) by (simp add: l emitEvent_def split: option.splits)
qed

subsection \<open>\<^verbatim>\<open>stop\<close> called twice\<close>

lemma fold_fixed:
  assumes "\<And>e. e \<in> set es \<Longrightarrow> f e s = s"
  shows "fold f es s = s"
  using assms by (induction es) simp_all

lemma stop_entry_other: "k' \<noteq> k \<Longrightarrow> track_view (stop_entry (k, e) s) k' = track_view s k'"
  by (simp add: track_view_def stop_entry_def AList.update_conv' Let_def split: option.splits)

lemma stop_entry_same:
  "track_view s k = track_view s' k \<Longrightarrow>
   track_view (stop_entry (k, e) s) k = track_view (stop_entry (k, e) s') k"
  by (simp add: track_view_def stop_entry_def AList.update_conv' Let_def split: option.splits)

lemma track_view_stop_loop:
  assumes "distinct (map fst (players s))"
  shows "track_view (fold stop_entry (players s) s) k =
           (case map_of (players s) k of
              None \<Rightarrow> track_view s k
            | Some player \<Rightarrow> track_view (stop_entry (k, player) s) k)"
  using stop_entry_other stop_entry_same assms
  by (rule fold_entries_lookup [where look = track_view and f = stop_entry])

lemma distinct_players_stop_entry:
  "distinct (map fst (players s)) \<Longrightarrow> distinct (map fst (players (stop_entry e s)))"
  by (simp add: stop_entry_def Let_def AList.distinct_update split: prod.splits option.splits)

lemma distinct_players_stop_loop:
  assumes "distinct (map fst (players s))"
  shows "distinct (map fst (players (fold stop_entry es s)))"
  using assms
  by (rule fold_invariant [where P = "\<lambda>s. distinct (map fst (players s))"])
     (rule distinct_players_stop_entry)

text \<open>After the loop of \<^verbatim>\<open>stop\<close> no player of the map is playing and no flag is set.\<close>

lemma stop_loop_result:
  assumes d: "distinct (map fst (players s))"
    and e: "(k, p) \<in> set (players (fold stop_entry (players s) s))"
  shows "\<not> mp_isPlaying p"
    and "map_of (trackConfigs (fold stop_entry (players s) s)) k = Some c \<Longrightarrow> \<not> tc_isPlaying c"
proof -
  let ?s' = "fold stop_entry (players s) s"
  have d': "distinct (map fst (players ?s'))" using d by (rule distinct_players_stop_loop)
  with e have look: "map_of (players ?s') k = Some p" by simp
  have v: "track_view ?s' k =
      (case map_of (players s) k of None \<Rightarrow> track_view s k
       | Some player \<Rightarrow> track_view (stop_entry (k, player) s) k)"
    using d by (rule track_view_stop_loop)
  from look v obtain p0 where p0: "map_of (players s) k = Some p0"
    by (cases "map_of (players s) k") (simp_all add: track_view_def)
  with v have v': "track_view ?s' k = track_view (stop_entry (k, p0) s) k" by simp
  from v' look p0 show "\<not> mp_isPlaying p"
    by (auto simp add: track_view_def stop_entry_def Let_def AList.update_conv' mp_isPlaying_def
        mp_stop_prepare_def split: option.splits if_splits)
  from v' p0 show "\<not> tc_isPlaying c" if "map_of (trackConfigs ?s') k = Some c"
    using that
    by (auto simp add: track_view_def stop_entry_def Let_def AList.update_conv'
        split: option.splits if_splits)
qed

lemma stop_entry_fixed:
  assumes "\<not> mp_isPlaying p"
    and "\<And>c. map_of (trackConfigs s) k = Some c \<Longrightarrow> \<not> tc_isPlaying c"
  shows "stop_entry (k, p) s = s"
proof (cases "map_of (trackConfigs s) k")
  case None
  with assms(1) show ?thesis by (simp add: stop_entry_def)
next
  case (Some c)
  with assms(2) have "c \<lparr> tc_isPlaying := False \<rparr> = c" by simp
  with Some assms(1) show ?thesis
    by (simp add: stop_entry_def AList.update_triv)
qed

text \<open>
  On the Android module a second \<^verbatim>\<open>stop()\<close> right after the first changes nothing but the
  event log, to which it appends one more \<^verbatim>\<open>onPlaybackStopped\<close>.
\<close>

lemma android_stop_twice:
  assumes "distinct (map fst (players s))"
  shows "snd (android_stop (snd (android_stop s))) =
           sendEvent ''onPlaybackStopped'' (snd (android_stop s))"
proof -
  let ?l = "fold stop_entry (players s) s"
  let ?s1 = "snd (android_stop s)"
  have pl: "players ?s1 = players ?l" and tc: "trackConfigs ?s1 = trackConfigs ?l"
    by (simp_all add: android_stop_def stop_body_def cancelTimer_def sendEvent_def)
  have "stop_entry e ?s1 = ?s1" if "e \<in> set (players ?s1)" for e
  proof -
    obtain k p where e: "e = (k, p)" by (cases e)
    with that pl have m: "(k, p) \<in> set (players ?l)" by simp
    show ?thesis
      unfolding e
      using stop_loop_result [OF assms m]
      by (intro stop_entry_fixed) (simp_all add: tc)
  qed
  then have "fold stop_entry (players ?s1) ?s1 = ?s1" by (rule fold_fixed)
  then have "stop_body ?s1 = ?s1"
    by (simp add: stop_body_def) (simp add: android_stop_def stop_body_def cancelTimer_def sendEvent_def)
  then show ?thesis by (simp add: android_stop_def)
qed

subsection \<open>The iOS module\<close>

text \<open>
  The iOS \<^verbatim>\<open>setVolume\<close> writes the node's \<^verbatim>\<open>volume\<close> only; the node's \<^verbatim>\<open>pan\<close> is kept.
\<close>

lemma ios_setVolume_keeps_pan:
  assumes "map_of (ios_players s) k = Some p"
  shows "map_of (ios_players (snd (ios_setVolume k v s))) k =
           Some (p \<lparr> an_volume := max 0 (min 1 v) \<rparr>)"
  using assms
  by (simp add: ios_setVolume_def ios_modify_config_def Let_def AList.update_conv'
      split: option.splits)

lemma ios_stop_entry_other:
  "k' \<noteq> k \<Longrightarrow> ios_track_view (ios_stop_entry (k, e) s) k' = ios_track_view s k'"
  by (simp add: ios_track_view_def ios_stop_entry_def ios_modify_config_def AList.update_conv'
      split: option.splits)

lemma ios_stop_entry_same:
  "ios_track_view s k = ios_track_view s' k \<Longrightarrow>
   ios_track_view (ios_stop_entry (k, e) s) k = ios_track_view (ios_stop_entry (k, e) s') k"
  by (simp add: ios_track_view_def ios_stop_entry_def ios_modify_config_def AList.update_conv'
      split: option.splits)

lemma ios_track_view_stop_loop:
  assumes "distinct (map fst (ios_players s))"
  shows "ios_track_view (fold ios_stop_entry (ios_players s) s) k =
           (case map_of (ios_players s) k of
              None \<Rightarrow> ios_track_view s k
            | Some player \<Rightarrow> ios_track_view (ios_stop_entry (k, player) s) k)"
  using ios_stop_entry_other ios_stop_entry_same assms
  by (rule fold_entries_lookup [where look = ios_track_view and f = ios_stop_entry])

lemma ios_track_view_stop:
  "ios_track_view (snd (ios_stop s)) k = ios_track_view (fold ios_stop_entry (ios_players s) s) k"
  by (simp add: ios_stop_def ios_cancelTimer_def ios_track_view_def)

text \<open>The iOS \<^verbatim>\<open>stop\<close> stops every player of the map, playing or not.\<close>

lemma ios_stop_every_player:
  assumes "distinct (map fst (ios_players s))" and "map_of (ios_players s) k = Some p"
  shows "map_of (ios_players (snd (ios_stop s))) k =
           Some (p \<lparr> an_isPlaying := False, an_scheduled := 0 \<rparr>)"
    and "map_of (ios_trackConfigs (snd (ios_stop s))) k =
           map_option (\<lambda>c. c \<lparr> tc_isPlaying := False \<rparr>) (map_of (ios_trackConfigs s) k)"
proof -
  have v: "ios_track_view (snd (ios_stop s)) k = ios_track_view (ios_stop_entry (k, p) s) k"
    using ios_track_view_stop_loop [OF assms(1), of k] assms(2)
    by (simp add: ios_track_view_stop)
  from v show "map_of (ios_players (snd (ios_stop s))) k =
           Some (p \<lparr> an_isPlaying := False, an_scheduled := 0 \<rparr>)"
    by (simp add: ios_track_view_def ios_stop_entry_def ios_modify_config_def AList.update_conv'
        split: option.splits)
  from v show "map_of (ios_trackConfigs (snd (ios_stop s))) k =
           map_option (\<lambda>c. c \<lparr> tc_isPlaying := False \<rparr>) (map_of (ios_trackConfigs s) k)"
    by (simp add: ios_track_view_def ios_stop_entry_def ios_modify_config_def AList.update_conv'
        split: option.splits)
qed

lemma ios_fade_entry_other:
  "k' \<noteq> k \<Longrightarrow> ios_track_view (ios_fade_entry t (k, e) s) k' = ios_track_view s k'"
  by (simp add: ios_track_view_def ios_fade_entry_def AList.update_conv')

lemma ios_fade_entry_same:
  "ios_track_view s k = ios_track_view s' k \<Longrightarrow>
   ios_track_view (ios_fade_entry t (k, e) s) k = ios_track_view (ios_fade_entry t (k, e) s') k"
  by (simp add: ios_track_view_def ios_fade_entry_def AList.update_conv')

lemma ios_track_view_fade_loop:
  assumes "distinct (map fst (ios_players s))"
  shows "ios_track_view (fold (ios_fade_entry t) (ios_players s) s) k =
           (case map_of (ios_players s) k of
              None \<Rightarrow> ios_track_view s k
            | Some player \<Rightarrow> ios_track_view (ios_fade_entry t (k, player) s) k)"
  using ios_fade_entry_other ios_fade_entry_same assms
  by (rule fold_entries_lookup [where look = ios_track_view and f = "ios_fade_entry t"])

text \<open>
  The iOS tick in the fade window: every player's volume, whatever it is at that moment,
  is multiplied by \<open>remaining / fadeOutDuration\<close>.
\<close>

lemma ios_fade_tick:
  assumes "ios_timerConfig s = Some config" and "ios_timerStartTime s = Some startTime"
    and "ios_fadeOut config"
    and "remaining = ios_duration config - (now - startTime)"
    and "0 < remaining" and "remaining \<le> ios_fadeOutDuration config"
    and "distinct (map fst (ios_players s))"
    and "map_of (ios_players s) k = Some p"
  shows "ios_applied_volume (ios_handleTimerTick now s) k =
           Some (an_volume p * (remaining / ios_fadeOutDuration config))"
proof -
  let ?t = "1 - (1 - remaining / ios_fadeOutDuration config)"
  have tick: "ios_handleTimerTick now s = fold (ios_fade_entry ?t) (ios_players s) s"
    using assms(1-6) by (simp add: ios_handleTimerTick_def Let_def)
  have "ios_track_view (ios_handleTimerTick now s) k =
      ios_track_view (ios_fade_entry ?t (k, p) s) k"
    unfolding tick using ios_track_view_fade_loop [OF assms(7), of ?t k] assms(8) by simp
  then have "map_of (ios_players (ios_handleTimerTick now s)) k =
      map_of (ios_players (ios_fade_entry ?t (k, p) s)) k"
    by (simp add: ios_track_view_def)
  then show ?thesis
    by (simp add: ios_applied_volume_def ios_fade_entry_def AList.update_conv')
qed


lemma distinct_ios_stop_entry:
  "distinct (map fst (ios_players s)) \<Longrightarrow> distinct (map fst (ios_players (ios_stop_entry e s)))"
  by (simp add: ios_stop_entry_def ios_modify_config_def AList.distinct_update
      split: prod.splits option.splits)

lemma distinct_ios_stop_loop:
  assumes "distinct (map fst (ios_players s))"
  shows "distinct (map fst (ios_players (fold ios_stop_entry es s)))"
  using assms
  by (rule fold_invariant [where P = "\<lambda>s. distinct (map fst (ios_players s))"])
     (rule distinct_ios_stop_entry)

lemma ios_stop_loop_result:
  assumes d: "distinct (map fst (ios_players s))"
    and e: "(k, p) \<in> set (ios_players (fold ios_stop_entry (ios_players s) s))"
  shows "map_of (ios_players (fold ios_stop_entry (ios_players s) s)) k = Some p"
    and "p \<lparr> an_isPlaying := False, an_scheduled := 0 \<rparr> = p"
    and "map_of (ios_trackConfigs (fold ios_stop_entry (ios_players s) s)) k = Some c \<Longrightarrow>
         c \<lparr> tc_isPlaying := False \<rparr> = c"
proof -
  let ?s' = "fold ios_stop_entry (ios_players s) s"
  have d': "distinct (map fst (ios_players ?s'))" using d by (rule distinct_ios_stop_loop)
  with e show look: "map_of (ios_players ?s') k = Some p" by simp
  have v: "ios_track_view ?s' k =
      (case map_of (ios_players s) k of None \<Rightarrow> ios_track_view s k
       | Some player \<Rightarrow> ios_track_view (ios_stop_entry (k, player) s) k)"
    using d by (rule ios_track_view_stop_loop)
  from look v obtain p0 where p0: "map_of (ios_players s) k = Some p0"
    by (cases "map_of (ios_players s) k") (simp_all add: ios_track_view_def)
  with v have v': "ios_track_view ?s' k = ios_track_view (ios_stop_entry (k, p0) s) k" by simp
  from v' look p0 show "p \<lparr> an_isPlaying := False, an_scheduled := 0 \<rparr> = p"
    by (auto simp add: ios_track_view_def ios_stop_entry_def ios_modify_config_def
        AList.update_conv' split: option.splits)
  from v' p0 show "c \<lparr> tc_isPlaying := False \<rparr> = c"
    if "map_of (ios_trackConfigs ?s') k = Some c"
    using that
    by (auto simp add: ios_track_view_def ios_stop_entry_def ios_modify_config_def
        AList.update_conv' split: option.splits)
qed

lemma ios_stop_entry_fixed:
  assumes "map_of (ios_players s) k = Some p"
    and "p \<lparr> an_isPlaying := False, an_scheduled := 0 \<rparr> = p"
    and "\<And>c. map_of (ios_trackConfigs s) k = Some c \<Longrightarrow> c \<lparr> tc_isPlaying := False \<rparr> = c"
  shows "ios_stop_entry (k, p) s = s"
proof -
  have pl: "s \<lparr> ios_players :=
      AList.update k (p \<lparr> an_isPlaying := False, an_scheduled := 0 \<rparr>) (ios_players s) \<rparr> = s"
    using assms(1,2) by (simp add: AList.update_triv)
  show ?thesis
  proof (cases "map_of (ios_trackConfigs s) k")
    case None
    with pl show ?thesis by (simp add: ios_stop_entry_def ios_modify_config_def)
  next
    case (Some c)
    with assms(3) have "c \<lparr> tc_isPlaying := False \<rparr> = c" by simp
    with Some pl show ?thesis
      by (simp add: ios_stop_entry_def ios_modify_config_def AList.update_triv)
  qed
qed

text \<open>On the iOS module a second \<^verbatim>\<open>stop()\<close> right after the first changes nothing.\<close>

lemma ios_stop_twice:
  assumes "distinct (map fst (ios_players s))"
  shows "snd (ios_stop (snd (ios_stop s))) = snd (ios_stop s)"
proof -
  let ?l = "fold ios_stop_entry (ios_players s) s"
  let ?s1 = "snd (ios_stop s)"
  have pl: "ios_players ?s1 = ios_players ?l" and tc: "ios_trackConfigs ?s1 = ios_trackConfigs ?l"
    by (simp_all add: ios_stop_def ios_cancelTimer_def)
  have "ios_stop_entry e ?s1 = ?s1" if "e \<in> set (ios_players ?s1)" for e
  proof -
    obtain k p where e: "e = (k, p)" by (cases e)
    with that pl have m: "(k, p) \<in> set (ios_players ?l)" by simp
    show ?thesis
      unfolding e
      using ios_stop_loop_result [OF assms m]
      by (intro ios_stop_entry_fixed) (simp_all add: pl tc)
  qed
  then have "fold ios_stop_entry (ios_players ?s1) ?s1 = ?s1" by (rule fold_fixed)
  then show ?thesis
    by (simp add: ios_stop_def [of ?s1]) (simp add: ios_stop_def ios_cancelTimer_def)
qed

lemma ios_play_entry_other:
  "k' \<noteq> k \<Longrightarrow> ios_track_view (ios_play_entry (k, e) s) k' = ios_track_view s k'"
  by (simp add: ios_track_view_def ios_play_entry_def ios_modify_config_def AList.update_conv'
      Let_def split: option.splits)

lemma ios_play_entry_same:
  "ios_track_view s k = ios_track_view s' k \<Longrightarrow>
   ios_track_view (ios_play_entry (k, e) s) k = ios_track_view (ios_play_entry (k, e) s') k"
  by (simp add: ios_track_view_def ios_play_entry_def ios_modify_config_def AList.update_conv'
      Let_def split: option.splits)

lemma ios_track_view_play_loop:
  assumes "distinct (map fst (ios_players s))"
  shows "ios_track_view (fold ios_play_entry (ios_players s) s) k =
           (case map_of (ios_players s) k of
              None \<Rightarrow> ios_track_view s k
            | Some player \<Rightarrow> ios_track_view (ios_play_entry (k, player) s) k)"
  using ios_play_entry_other ios_play_entry_same assms
  by (rule fold_entries_lookup [where look = ios_track_view and f = ios_play_entry])

text \<open>
  The iOS \<^verbatim>\<open>play\<close>: a track of volume greater than 0 gets one more looping buffer scheduled
  and, when its node is not playing, is started with \<^verbatim>\<open>isPlaying = true\<close>; a track of volume
  0 is left as it was.
\<close>

lemma ios_play_tracks:
  assumes "ios_isInitialized s" and "ios_engineRunning s \<or> ios_canStart s"
    and "distinct (map fst (ios_players s))"
    and "map_of (ios_players s) k = Some p" and "map_of (ios_audioFiles s) k = Some f"
    and "map_of (ios_trackConfigs s) k = Some c"
  shows "fst (ios_play s) = Inr True"
    and "map_of (ios_players (snd (ios_play s))) k =
           Some (if tc_volume c > 0
                 then p \<lparr> an_isPlaying := True, an_scheduled := Suc (an_scheduled p) \<rparr>
                 else p)"
    and "map_of (ios_trackConfigs (snd (ios_play s))) k =
           Some (if tc_volume c > 0 \<and> \<not> an_isPlaying p then c \<lparr> tc_isPlaying := True \<rparr> else c)"
proof -
  let ?s1 = "s \<lparr> ios_engineRunning := True \<rparr>"
  have d: "distinct (map fst (ios_players ?s1))" using assms(3) by simp
  have "ios_track_view (snd (ios_play s)) k =
      ios_track_view (fold ios_play_entry (ios_players ?s1) ?s1) k"
    using assms(1,2) by (auto simp add: ios_play_def Let_def ios_track_view_def)
  also have "\<dots> = ios_track_view (ios_play_entry (k, p) ?s1) k"
    using ios_track_view_play_loop [OF d, of k] assms(4) by simp
  finally have v: "ios_track_view (snd (ios_play s)) k =
      ios_track_view (ios_play_entry (k, p) ?s1) k" .
  show "fst (ios_play s) = Inr True"
    using assms(1,2) by (auto simp add: ios_play_def Let_def)
  from v assms(4-6) show "map_of (ios_players (snd (ios_play s))) k =
           Some (if tc_volume c > 0
                 then p \<lparr> an_isPlaying := True, an_scheduled := Suc (an_scheduled p) \<rparr>
                 else p)"
    by (auto simp add: ios_track_view_def ios_play_entry_def ios_modify_config_def
        AList.update_conv' Let_def)
  from v assms(4-6) show "map_of (ios_trackConfigs (snd (ios_play s))) k =
           Some (if tc_volume c > 0 \<and> \<not> an_isPlaying p then c \<lparr> tc_isPlaying := True \<rparr> else c)"
    by (auto simp add: ios_track_view_def ios_play_entry_def ios_modify_config_def
        AList.update_conv' Let_def)
qed

end
